theory Spec2Isabelle
  imports Complex_Main "HOL-Library.Word"
begin

section \<open>iv2glb: mesh accumulation and GLB packing (src/native/iv2glb.cpp)\<close>

subsection \<open>Floating-point values\<close>

text \<open>
  The values a C++ \<open>float\<close> or \<open>double\<close> can hold, by what they denote: a
  not-a-number, the two infinities the source itself uses
  (\<open>std::numeric_limits<float>::infinity()\<close>), or a finite number. Both signed
  zeros denote \<open>Fin 0\<close>; the comparisons of the source do not tell them apart.
  Rounding is not part of this type. The matrix transform of Coin3D is a
  parameter of the model; the multiplication by the unit scale and the narrowing
  to \<open>float\<close> are a parameter of the accumulator's functions, and
  \<open>float_product\<close> below is that operation as IEEE 754 arithmetic computes it.
\<close>

datatype fp = NaN | NegInf | Fin real | PosInf

text \<open>The operator \<open><\<close> of the source on two floats: false as soon as one is NaN.\<close>

fun fp_less :: "fp \<Rightarrow> fp \<Rightarrow> bool" where
  "fp_less NaN b = False"
| "fp_less a NaN = False"
| "fp_less NegInf NegInf = False"
| "fp_less NegInf b = True"
| "fp_less (Fin a) (Fin b) = (a < b)"
| "fp_less (Fin a) PosInf = True"
| "fp_less (Fin a) NegInf = False"
| "fp_less PosInf b = False"

text \<open>The operator \<open>></\<close> of the source: \<open>a > b\<close> is \<open>b < a\<close>.\<close>

definition fp_greater :: "fp \<Rightarrow> fp \<Rightarrow> bool" where
  "fp_greater a b = fp_less b a"

text \<open>The operator \<open><=\<close> on floats, used to state bounds: less or equal, never with a NaN.\<close>

definition fp_le :: "fp \<Rightarrow> fp \<Rightarrow> bool" where
  "fp_le a b = (a \<noteq> NaN \<and> b \<noteq> NaN \<and> (fp_less a b \<or> a = b))"

type_synonym SbVec3f = "fp \<times> fp \<times> fp"

subsection \<open>Floating-point arithmetic\<close>

text \<open>
  Rounding to nearest, ties to even, of a real number to a binary format of
  precision \<open>p\<close> and exponents \<open>emin\<close> to \<open>emax\<close>: binary64 is
  \<open>(53, -1022, 1023)\<close> and binary32 is \<open>(24, -126, 127)\<close>. \<open>binade\<close> is the
  exponent \<open>e\<close> of the number, the largest one in range with \<open>2 ^ e\<close> not above
  it, and \<open>emin\<close> for the subnormal numbers. The number is rounded to a multiple
  of \<open>2 ^ (e - p + 1)\<close>; a result that reaches \<open>2 ^ (emax + 1)\<close> is an infinity.
\<close>

definition round_half_even :: "real \<Rightarrow> int" where
  "round_half_even x =
     (let f = \<lfloor>x\<rfloor> in
      if x - of_int f < 1 / 2 then f
      else if 1 / 2 < x - of_int f then f + 1
      else if even f then f else f + 1)"

fun binade_search :: "int \<Rightarrow> nat \<Rightarrow> real \<Rightarrow> int" where
  "binade_search emin 0 a = emin"
| "binade_search emin (Suc n) a =
     (if 2 powi (emin + int (Suc n)) \<le> a then emin + int (Suc n) else binade_search emin n a)"

definition binade :: "int \<Rightarrow> int \<Rightarrow> real \<Rightarrow> int" where
  "binade emin emax a = binade_search emin (nat (emax - emin)) a"

definition round_to_format :: "nat \<Rightarrow> int \<Rightarrow> int \<Rightarrow> real \<Rightarrow> fp" where
  "round_to_format p emin emax x =
     (if x = 0 then Fin 0
      else
        (let a = \<bar>x\<bar>;
             e = binade emin emax a;
             q = 2 powi (e - int p + 1);
             r = of_int (round_half_even (a / q)) * q
         in if 2 powi (emax + 1) \<le> r then (if 0 < x then PosInf else NegInf)
            else Fin (if 0 < x then r else - r)))"

definition to_double :: "real \<Rightarrow> fp" where
  "to_double x = round_to_format 53 (- 1022) 1023 x"

definition to_float :: "real \<Rightarrow> fp" where
  "to_float x = round_to_format 24 (- 126) 127 x"

text \<open>
  The operator \<open>*\<close> on two doubles, and \<open>static_cast<float>\<close> of a double. A
  product with a NaN, or of an infinity and zero, is a NaN; the product of two
  numbers is their product rounded to binary64.
\<close>

fun double_times :: "fp \<Rightarrow> fp \<Rightarrow> fp" where
  "double_times NaN b = NaN"
| "double_times a NaN = NaN"
| "double_times (Fin a) (Fin b) = to_double (a * b)"
| "double_times (Fin a) PosInf = (if a = 0 then NaN else if 0 < a then PosInf else NegInf)"
| "double_times (Fin a) NegInf = (if a = 0 then NaN else if 0 < a then NegInf else PosInf)"
| "double_times PosInf (Fin b) = (if b = 0 then NaN else if 0 < b then PosInf else NegInf)"
| "double_times NegInf (Fin b) = (if b = 0 then NaN else if 0 < b then NegInf else PosInf)"
| "double_times PosInf PosInf = PosInf"
| "double_times PosInf NegInf = NegInf"
| "double_times NegInf PosInf = NegInf"
| "double_times NegInf NegInf = PosInf"

fun float_of_double :: "fp \<Rightarrow> fp" where
  "float_of_double (Fin a) = to_float a"
| "float_of_double other = other"

text \<open>
  \<open>static_cast<float>(wp[i] * scale)\<close>, lines 81-83: the float \<open>c\<close> is converted
  to \<open>double\<close>, which changes nothing, and multiplied in \<open>double\<close> by the scale,
  the double nearest to the decimal literal \<open>s\<close> that \<open>unitsScaleToMeters\<close>
  returns; the product is narrowed to \<open>float\<close>.
\<close>

definition float_product :: "fp \<Rightarrow> real \<Rightarrow> fp" where
  "float_product c s = float_of_double (double_times c (to_double s))"

subsection \<open>Units\<close>

text \<open>
  The enumerators of \<open>SoUnits::Units\<close> that \<open>unitsScaleToMeters\<close> names; the
  enumeration itself is declared by Coin3D, so every other value it can take is
  \<open>OTHER_UNITS k\<close>.
\<close>

datatype Units =
    MILLIMETERS | CENTIMETERS | METERS | KILOMETERS
  | INCHES | FEET | YARDS | MILES
  | OTHER_UNITS nat

text \<open>
  \<open>unitsScaleToMeters\<close>, lines 46-60. The result is the decimal literal of the
  source; its rounding to a \<open>double\<close> belongs to the multiplication that uses it.
\<close>

fun unitsScaleToMeters :: "Units \<Rightarrow> real" where
  "unitsScaleToMeters MILLIMETERS = 0.001"
| "unitsScaleToMeters CENTIMETERS = 0.01"
| "unitsScaleToMeters METERS = 1.0"
| "unitsScaleToMeters KILOMETERS = 1000.0"
| "unitsScaleToMeters INCHES = 0.0254"
| "unitsScaleToMeters FEET = 0.3048"
| "unitsScaleToMeters YARDS = 0.9144"
| "unitsScaleToMeters MILES = 1609.344"
| "unitsScaleToMeters (OTHER_UNITS k) = 1.0"

subsection \<open>The mesh accumulator\<close>

text \<open>
  \<open>struct MeshOut\<close>, lines 26-35. \<open>positions\<close> is the flat vector
  \<open>xyz xyz ...\<close>; the arrays \<open>posMin[3]\<close> and \<open>posMax[3]\<close> are triples. The
  size of a vector is a \<open>nat\<close>: a \<open>size_t\<close> cannot wrap on the elements a
  vector really holds.
\<close>

record MeshOut =
  positions :: "fp list"
  indices :: "32 word list"
  posMin :: "fp \<times> fp \<times> fp"
  posMax :: "fp \<times> fp \<times> fp"

text \<open>The default member initialisers: empty vectors, bounds at plus and minus infinity.\<close>

definition MeshOut_init :: MeshOut where
  "MeshOut_init =
     \<lparr>positions = [], indices = [],
      posMin = (PosInf, PosInf, PosInf), posMax = (NegInf, NegInf, NegInf)\<rparr>"

text \<open>\<open>updateMinMax\<close>, lines 37-44: six independent guarded assignments.\<close>

definition updateMinMax :: "MeshOut \<Rightarrow> fp \<Rightarrow> fp \<Rightarrow> fp \<Rightarrow> MeshOut" where
  "updateMinMax m x y z =
     (case posMin m of (mn0, mn1, mn2) \<Rightarrow>
      case posMax m of (mx0, mx1, mx2) \<Rightarrow>
        m\<lparr>posMin := (if fp_less x mn0 then x else mn0,
                     if fp_less y mn1 then y else mn1,
                     if fp_less z mn2 then z else mn2),
          posMax := (if fp_greater x mx0 then x else mx0,
                     if fp_greater y mx1 then y else mx1,
                     if fp_greater z mx2 then z else mx2)\<rparr>)"

text \<open>
  What the callback reads of its arguments: the point of a \<open>SoPrimitiveVertex\<close>, and
  the model matrix and the units of the traversal state (\<open>SoCallbackAction\<close>). The
  matrix type is Coin3D's and stays a type parameter.
\<close>

datatype SoPrimitiveVertex = SoPrimitiveVertex (getPoint: SbVec3f)

record 'mat SoCallbackAction =
  getModelMatrix :: "'mat"
  getUnits :: Units

text \<open>
  The lambda \<open>pushVertex\<close>, lines 76-91, with what it captures (\<open>model\<close>,
  \<open>scale\<close>, \<open>out\<close>) as arguments. Two operations are parameters:
  \<open>multVecMatrix model p\<close> is \<open>SbMatrix::multVecMatrix\<close> of Coin3D, and
  \<open>scaled c s\<close> is \<open>static_cast<float>(c * s)\<close>, the product in \<open>double\<close>
  narrowed to \<open>float\<close>, which the program computes as \<open>float_product\<close>. The index is the \<open>size_t\<close> quotient
  \<open>positions.size() / 3\<close> cast to \<open>uint32_t\<close>, which keeps its low 32 bits.
\<close>

definition pushVertex ::
  "('mat \<Rightarrow> SbVec3f \<Rightarrow> SbVec3f) \<Rightarrow> (fp \<Rightarrow> real \<Rightarrow> fp) \<Rightarrow> 'mat \<Rightarrow> real \<Rightarrow>
   SoPrimitiveVertex \<Rightarrow> MeshOut \<Rightarrow> 32 word \<times> MeshOut" where
  "pushVertex multVecMatrix scaled model scale v out =
     (let p = getPoint v;
          wp = multVecMatrix model p;
          x = scaled (fst wp) scale;
          y = scaled (fst (snd wp)) scale;
          z = scaled (snd (snd wp)) scale;
          idx = (of_nat (length (positions out) div 3) :: 32 word);
          out1 = out\<lparr>positions := positions out @ [x]\<rparr>;
          out2 = out1\<lparr>positions := positions out1 @ [y]\<rparr>;
          out3 = out2\<lparr>positions := positions out2 @ [z]\<rparr>
      in (idx, updateMinMax out3 x y z))"

text \<open>\<open>triangleCB\<close>, lines 63-100.\<close>

definition triangleCB ::
  "('mat \<Rightarrow> SbVec3f \<Rightarrow> SbVec3f) \<Rightarrow> (fp \<Rightarrow> real \<Rightarrow> fp) \<Rightarrow> MeshOut \<Rightarrow>
   'mat SoCallbackAction \<Rightarrow> SoPrimitiveVertex \<Rightarrow> SoPrimitiveVertex \<Rightarrow> SoPrimitiveVertex \<Rightarrow>
   MeshOut" where
  "triangleCB multVecMatrix scaled out action v1 v2 v3 =
     (let model = getModelMatrix action;
          scale = unitsScaleToMeters (getUnits action)
      in case pushVertex multVecMatrix scaled model scale v1 out of (i1, out1) \<Rightarrow>
         case pushVertex multVecMatrix scaled model scale v2 out1 of (i2, out2) \<Rightarrow>
         case pushVertex multVecMatrix scaled model scale v3 out2 of (i3, out3) \<Rightarrow>
           (let o1 = out3\<lparr>indices := indices out3 @ [i1]\<rparr>;
                o2 = o1\<lparr>indices := indices o1 @ [i2]\<rparr>
            in o2\<lparr>indices := indices o2 @ [i3]\<rparr>))"

text \<open>
  \<open>action.apply(root)\<close> (line 248) calls \<open>triangleCB\<close> once per triangle the
  traversal generates, in order, on the same \<open>MeshOut\<close>. A call is the traversal
  state and the three vertices.
\<close>

type_synonym 'mat triangle =
  "'mat SoCallbackAction \<times> SoPrimitiveVertex \<times> SoPrimitiveVertex \<times> SoPrimitiveVertex"

fun apply_callbacks ::
  "('mat \<Rightarrow> SbVec3f \<Rightarrow> SbVec3f) \<Rightarrow> (fp \<Rightarrow> real \<Rightarrow> fp) \<Rightarrow> MeshOut \<Rightarrow> 'mat triangle list \<Rightarrow>
   MeshOut" where
  "apply_callbacks multVecMatrix scaled out [] = out"
| "apply_callbacks multVecMatrix scaled out ((action, v1, v2, v3) # ts) =
     apply_callbacks multVecMatrix scaled (triangleCB multVecMatrix scaled out action v1 v2 v3) ts"

text \<open>The number of vertices a mesh holds, \<open>positions.size() / 3\<close> (lines 85, 149).\<close>

definition vertexCount :: "MeshOut \<Rightarrow> nat" where
  "vertexCount m = length (positions m) div 3"

text \<open>
  The vertex buffer as the specification reads it: the entries of \<open>positions\<close> three by
  three. \<open>scaledPoint\<close> is the point \<open>pushVertex\<close> stores for a vertex (transformed,
  then scaled), \<open>flat\<close> its three coordinates in storage order.
\<close>

fun triples :: "'a list \<Rightarrow> ('a \<times> 'a \<times> 'a) list" where
  "triples (x # y # z # r) = (x, y, z) # triples r"
| "triples r = []"

definition vertices :: "MeshOut \<Rightarrow> SbVec3f list" where
  "vertices m = triples (positions m)"

definition scaledPoint ::
  "('mat \<Rightarrow> SbVec3f \<Rightarrow> SbVec3f) \<Rightarrow> (fp \<Rightarrow> real \<Rightarrow> fp) \<Rightarrow> 'mat SoCallbackAction \<Rightarrow>
   SoPrimitiveVertex \<Rightarrow> SbVec3f" where
  "scaledPoint multVecMatrix scaled action v =
     (let wp = multVecMatrix (getModelMatrix action) (getPoint v);
          s = unitsScaleToMeters (getUnits action)
      in (scaled (fst wp) s, scaled (fst (snd wp)) s, scaled (snd (snd wp)) s))"

definition flat :: "SbVec3f \<Rightarrow> fp list" where
  "flat p = [fst p, fst (snd p), snd (snd p)]"

subsection \<open>The container document\<close>

text \<open>
  The structures of tinygltf, with the fields \<open>writeGLB\<close> sets; every other field
  keeps the default of its constructor. The macros \<open>TINYGLTF_...\<close> are the
  constructors of four enumerations. Four field names are prefixed, since the names of
  one theory share a name space: \<open>acc_byteOffset\<close> (\<open>Accessor::byteOffset\<close>),
  \<open>prim_indices\<close> (\<open>Primitive::indices\<close>), \<open>node_mesh\<close> (\<open>Node::mesh\<close>) and
  \<open>scene_nodes\<close> (\<open>Scene::nodes\<close>).
\<close>

type_synonym byte = "8 word"

datatype BufferTarget = TINYGLTF_TARGET_ARRAY_BUFFER | TINYGLTF_TARGET_ELEMENT_ARRAY_BUFFER

datatype ComponentType =
    TINYGLTF_COMPONENT_TYPE_BYTE | TINYGLTF_COMPONENT_TYPE_UNSIGNED_BYTE
  | TINYGLTF_COMPONENT_TYPE_SHORT | TINYGLTF_COMPONENT_TYPE_UNSIGNED_SHORT
  | TINYGLTF_COMPONENT_TYPE_INT | TINYGLTF_COMPONENT_TYPE_UNSIGNED_INT
  | TINYGLTF_COMPONENT_TYPE_FLOAT | TINYGLTF_COMPONENT_TYPE_DOUBLE

datatype AccessorType =
    TINYGLTF_TYPE_SCALAR | TINYGLTF_TYPE_VEC2 | TINYGLTF_TYPE_VEC3 | TINYGLTF_TYPE_VEC4
  | TINYGLTF_TYPE_MAT2 | TINYGLTF_TYPE_MAT3 | TINYGLTF_TYPE_MAT4

datatype PrimitiveMode =
    TINYGLTF_MODE_POINTS | TINYGLTF_MODE_LINE | TINYGLTF_MODE_LINE_LOOP
  | TINYGLTF_MODE_LINE_STRIP | TINYGLTF_MODE_TRIANGLES | TINYGLTF_MODE_TRIANGLE_STRIP
  | TINYGLTF_MODE_TRIANGLE_FAN

record Asset =
  version :: string
  generator :: string

record Buffer =
  data :: "byte list"

record BufferView =
  buffer :: int
  byteOffset :: nat
  byteLength :: nat
  target :: BufferTarget

record Accessor =
  bufferView :: int
  acc_byteOffset :: nat
  componentType :: ComponentType
  count :: nat
  type :: AccessorType
  minValues :: "fp list"
  maxValues :: "fp list"

record PbrMetallicRoughness =
  baseColorFactor :: "real list"
  metallicFactor :: real
  roughnessFactor :: real

record Material =
  pbrMetallicRoughness :: PbrMetallicRoughness

record Primitive =
  attributes :: "(string \<times> int) list"
  prim_indices :: int
  material :: int
  mode :: PrimitiveMode

record Mesh =
  primitives :: "Primitive list"

record Node =
  node_mesh :: int

record Scene =
  scene_nodes :: "int list"

record Model =
  asset :: Asset
  buffers :: "Buffer list"
  bufferViews :: "BufferView list"
  accessors :: "Accessor list"
  materials :: "Material list"
  meshes :: "Mesh list"
  nodes :: "Node list"
  scenes :: "Scene list"
  defaultScene :: int

text \<open>
  Object representations. \<open>sizeof(float)\<close> and \<open>sizeof(uint32_t)\<close> are 4, so the
  bytes of one element are a quadruple; which bytes they are (the encoding of a
  float, the byte order) is the platform's and a parameter of \<open>writeGLB\<close>.
  \<open>object_bytes\<close> is the memory behind \<open>vector::data()\<close>.
\<close>

definition sizeof_float :: nat where
  "sizeof_float = 4"

definition sizeof_uint32_t :: nat where
  "sizeof_uint32_t = 4"

type_synonym bytes4 = "byte \<times> byte \<times> byte \<times> byte"

fun unpack4 :: "bytes4 \<Rightarrow> byte list" where
  "unpack4 (a, b, c, d) = [a, b, c, d]"

definition object_bytes :: "('a \<Rightarrow> bytes4) \<Rightarrow> 'a list \<Rightarrow> byte list" where
  "object_bytes repr xs = concat (map (\<lambda>x. unpack4 (repr x)) xs)"

text \<open>
  \<open>std::memcpy(dst + off, src, n)\<close> on a byte vector: \<open>n\<close> bytes of \<open>src\<close>
  replace those of \<open>dst\<close> from \<open>off\<close> on. Both calls of the source stay inside
  the vectors.
\<close>

definition memcpy :: "byte list \<Rightarrow> nat \<Rightarrow> byte list \<Rightarrow> nat \<Rightarrow> byte list" where
  "memcpy dst off src n = take off dst @ take n src @ drop (off + n) dst"

text \<open>
  Lines 108-197 of \<open>writeGLB\<close>: the document, built by one \<open>push_back\<close> after the
  other on an empty \<open>tinygltf::Model\<close>. The doubles of \<open>minValues\<close> and
  \<open>maxValues\<close> are the floats of the bounding box, converted exactly.
\<close>

definition gltf_document :: "(fp \<Rightarrow> bytes4) \<Rightarrow> (32 word \<Rightarrow> bytes4) \<Rightarrow> MeshOut \<Rightarrow> Model" where
  "gltf_document float_repr uint32_repr mesh =
     (let posBytes = length (positions mesh) * sizeof_float;
          idxBytes = length (indices mesh) * sizeof_uint32_t;
          data0 = replicate (posBytes + idxBytes) (0 :: byte);
          data1 = memcpy data0 0 (object_bytes float_repr (positions mesh)) posBytes;
          data2 = memcpy data1 posBytes (object_bytes uint32_repr (indices mesh)) idxBytes;
          buffers1 = [\<lparr>data = data2\<rparr>];
          bvPos = \<lparr>buffer = 0, byteOffset = 0, byteLength = posBytes,
                   target = TINYGLTF_TARGET_ARRAY_BUFFER\<rparr>;
          bufferViews1 = [bvPos];
          bvPosIndex = int (length bufferViews1) - 1;
          bvIdx = \<lparr>buffer = 0, byteOffset = posBytes, byteLength = idxBytes,
                   target = TINYGLTF_TARGET_ELEMENT_ARRAY_BUFFER\<rparr>;
          bufferViews2 = bufferViews1 @ [bvIdx];
          bvIdxIndex = int (length bufferViews2) - 1;
          accPos = \<lparr>bufferView = bvPosIndex, acc_byteOffset = 0,
                    componentType = TINYGLTF_COMPONENT_TYPE_FLOAT,
                    count = length (positions mesh) div 3,
                    type = TINYGLTF_TYPE_VEC3,
                    minValues = [fst (posMin mesh), fst (snd (posMin mesh)), snd (snd (posMin mesh))],
                    maxValues = [fst (posMax mesh), fst (snd (posMax mesh)), snd (snd (posMax mesh))]\<rparr>;
          accessors1 = [accPos];
          accPosIndex = int (length accessors1) - 1;
          accIdx = \<lparr>bufferView = bvIdxIndex, acc_byteOffset = 0,
                    componentType = TINYGLTF_COMPONENT_TYPE_UNSIGNED_INT,
                    count = length (indices mesh),
                    type = TINYGLTF_TYPE_SCALAR,
                    minValues = [], maxValues = []\<rparr>;
          accessors2 = accessors1 @ [accIdx];
          accIdxIndex = int (length accessors2) - 1;
          mat = \<lparr>pbrMetallicRoughness =
                   \<lparr>baseColorFactor = [0.8, 0.8, 0.8, 1.0], metallicFactor = 0.0,
                    roughnessFactor = 1.0\<rparr>\<rparr>;
          materials1 = [mat];
          matIndex = int (length materials1) - 1;
          prim = \<lparr>attributes = [(''POSITION'', accPosIndex)], prim_indices = accIdxIndex,
                  material = matIndex, mode = TINYGLTF_MODE_TRIANGLES\<rparr>;
          gltfMesh = \<lparr>primitives = [prim]\<rparr>;
          meshes1 = [gltfMesh];
          meshIndex = int (length meshes1) - 1;
          node = \<lparr>node_mesh = meshIndex\<rparr>;
          nodes1 = [node];
          nodeIndex = int (length nodes1) - 1;
          scene = \<lparr>scene_nodes = [nodeIndex]\<rparr>
      in \<lparr>asset = \<lparr>version = ''2.0'', generator = ''coin3d-iv2glb-mvp''\<rparr>,
          buffers = buffers1, bufferViews = bufferViews2, accessors = accessors2,
          materials = materials1, meshes = meshes1, nodes = nodes1, scenes = [scene],
          defaultScene = 0\<rparr>)"

text \<open>
  \<open>writeGLB\<close>, lines 102-217. The serializer \<open>TinyGLTF::WriteGltfSceneToFile\<close> is
  tinygltf's: its verdict on a document, a path and the four flags is a parameter.
  The result is what the function returns, the message left in \<open>err\<close> (the
  caller's string when nothing is assigned), and the document and path handed to
  the serializer, \<open>None\<close> when the serializer was never called. Only the
  serializer touches the output file.
\<close>

record glb_result =
  returned :: bool
  err :: string
  serialized :: "(Model \<times> string) option"

definition writeGLB ::
  "(Model \<Rightarrow> string \<Rightarrow> bool \<Rightarrow> bool \<Rightarrow> bool \<Rightarrow> bool \<Rightarrow> bool) \<Rightarrow>
   (fp \<Rightarrow> bytes4) \<Rightarrow> (32 word \<Rightarrow> bytes4) \<Rightarrow> MeshOut \<Rightarrow> string \<Rightarrow> string \<Rightarrow> glb_result" where
  "writeGLB WriteGltfSceneToFile float_repr uint32_repr mesh outPath err0 =
     (if positions mesh = [] \<or> indices mesh = [] then
        \<lparr>returned = False, err = ''No triangles extracted from scene graph.'',
         serialized = None\<rparr>
      else
        (let model = gltf_document float_repr uint32_repr mesh;
             ok = WriteGltfSceneToFile model outPath True True False True
         in if \<not> ok then
              \<lparr>returned = False, err = ''tinygltf failed to write GLB.'',
               serialized = Some (model, outPath)\<rparr>
            else
              \<lparr>returned = True, err = err0, serialized = Some (model, outPath)\<rparr>))"

subsection \<open>The command line\<close>

text \<open>\<open>%zu\<close>: an unsigned number in decimal.\<close>

fun show_nat :: "nat \<Rightarrow> string" where
  "show_nat n =
     (if n < 10 then [''0123456789'' ! n]
      else show_nat (n div 10) @ [''0123456789'' ! (n mod 10)])"

declare show_nat.simps [simp del]

text \<open>
  What \<open>main\<close> calls outside this file: Coin3D opening the input
  (\<open>SoInput::openFile\<close>), reading the scene (\<open>SoDB::readAll\<close>, \<open>None\<close> for the
  null pointer), the triangle callbacks its traversal of a scene makes, its matrix
  transform; the float arithmetic and representations of the platform; and the
  serializer of tinygltf.
\<close>

record ('mat, 'scene) Env =
  SoInput_openFile :: "string \<Rightarrow> bool"
  SoDB_readAll :: "string \<Rightarrow> 'scene option"
  callbacks :: "'scene \<Rightarrow> 'mat triangle list"
  SbMatrix_multVecMatrix :: "'mat \<Rightarrow> SbVec3f \<Rightarrow> SbVec3f"
  float_of_product :: "fp \<Rightarrow> real \<Rightarrow> fp"
  float_bytes :: "fp \<Rightarrow> bytes4"
  uint32_bytes :: "32 word \<Rightarrow> bytes4"
  TinyGLTF_WriteGltfSceneToFile :: "Model \<Rightarrow> string \<Rightarrow> bool \<Rightarrow> bool \<Rightarrow> bool \<Rightarrow> bool \<Rightarrow> bool"

record process_exit =
  status :: int
  stdout :: string
  stderr :: string
  glb :: "(Model \<times> string) option"

text \<open>
  \<open>main\<close>, lines 219-260. \<open>argv\<close> is the whole vector, the program name first,
  and \<open>argc\<close> its length. \<open>SoDB::init\<close> and the reference counting of the root
  change nothing the result depends on and are left out; the scene read is known
  by the path of the input it was read from.
\<close>

definition main :: "('mat, 'scene) Env \<Rightarrow> string list \<Rightarrow> process_exit" where
  "main env argv =
     (if int (length argv) < 3 then
        \<lparr>status = 2, stdout = [],
         stderr = ''Usage: iv2glb <input.iv> <output.glb>\<newline>'', glb = None\<rparr>
      else
        (let inPath = argv ! 1; outPath = argv ! 2 in
         if \<not> SoInput_openFile env inPath then
           \<lparr>status = 3, stdout = [],
            stderr = ''Failed to open input file: '' @ inPath @ ''\<newline>'', glb = None\<rparr>
         else
           (case SoDB_readAll env inPath of
              None \<Rightarrow>
                \<lparr>status = 4, stdout = [],
                 stderr = ''SoDB::readAll() failed (invalid/unsupported .iv).\<newline>'',
                 glb = None\<rparr>
            | Some scene_root \<Rightarrow>
                (let mesh = apply_callbacks (SbMatrix_multVecMatrix env) (float_of_product env)
                              MeshOut_init (callbacks env scene_root);
                     r = writeGLB (TinyGLTF_WriteGltfSceneToFile env) (float_bytes env)
                           (uint32_bytes env) mesh outPath []
                 in if \<not> returned r then
                      \<lparr>status = 5, stdout = [],
                       stderr = ''GLB export failed: '' @ err r @ ''\<newline>'',
                       glb = serialized r\<rparr>
                    else
                      \<lparr>status = 0,
                       stdout = ''OK: wrote '' @ outPath @ '' ('' @
                                show_nat (length (indices mesh) div 3) @ '' triangles)\<newline>'',
                       stderr = [], glb = serialized r\<rparr>))))"

text \<open>
  Two parts of \<open>main\<close> by name: the mesh its traversal of a scene accumulates
  (lines 244-248), and its call of \<open>writeGLB\<close> (line 253), with \<open>err\<close> still
  empty.
\<close>

definition traversal_mesh :: "('mat, 'scene) Env \<Rightarrow> 'scene \<Rightarrow> MeshOut" where
  "traversal_mesh env scene_root =
     apply_callbacks (SbMatrix_multVecMatrix env) (float_of_product env) MeshOut_init
       (callbacks env scene_root)"

definition export_glb :: "('mat, 'scene) Env \<Rightarrow> MeshOut \<Rightarrow> string \<Rightarrow> glb_result" where
  "export_glb env m outPath =
     writeGLB (TinyGLTF_WriteGltfSceneToFile env) (float_bytes env) (uint32_bytes env) m outPath []"

subsection \<open>The bounding box, stated\<close>

text \<open>
  \<open>component i\<close> is the coordinate \<open>i\<close> of a point, as \<open>posMin[i]\<close> is of the box.
  \<open>tight_bounds mn mx cs\<close> relates the running minimum and maximum of one
  coordinate to the values \<open>cs\<close> seen so far: they bound every value that is a
  number, they are among the values once one of them is a number, and they are
  the initial infinities until then. \<open>bounds_inv\<close> says so of the three
  coordinates of a mesh whose \<open>positions\<close> are whole triples.
\<close>

definition component :: "nat \<Rightarrow> SbVec3f \<Rightarrow> fp" where
  "component i p = (if i = 0 then fst p else if i = 1 then fst (snd p) else snd (snd p))"

definition tight_bounds :: "fp \<Rightarrow> fp \<Rightarrow> fp list \<Rightarrow> bool" where
  "tight_bounds mn mx cs =
     ((\<forall>c \<in> set cs. c \<noteq> NaN \<longrightarrow> fp_le mn c \<and> fp_le c mx) \<and>
      ((\<exists>c \<in> set cs. c \<noteq> NaN) \<longrightarrow> mn \<in> set cs \<and> mx \<in> set cs) \<and>
      ((\<forall>c \<in> set cs. c = NaN) \<longrightarrow> mn = PosInf \<and> mx = NegInf))"

definition bounds_inv :: "MeshOut \<Rightarrow> bool" where
  "bounds_inv m =
     (length (positions m) mod 3 = 0 \<and>
      tight_bounds (fst (posMin m)) (fst (posMax m)) (map fst (vertices m)) \<and>
      tight_bounds (fst (snd (posMin m))) (fst (snd (posMax m))) (map (\<lambda>p. fst (snd p)) (vertices m)) \<and>
      tight_bounds (snd (snd (posMin m))) (snd (snd (posMax m))) (map (\<lambda>p. snd (snd p)) (vertices m)))"

subsection \<open>Concrete inputs\<close>

text \<open>
  A traversal whose matrices are the identity (the matrix type is \<open>unit\<close>), with
  the products of the program (\<open>float_product\<close>); the triangle of the
  specification's scenario, in meters and in millimeters.
\<close>

definition identity_multVecMatrix :: "unit \<Rightarrow> SbVec3f \<Rightarrow> SbVec3f" where
  "identity_multVecMatrix model p = p"

definition corner0 :: SoPrimitiveVertex where
  "corner0 = SoPrimitiveVertex (Fin 0, Fin 0, Fin 0)"

definition corner1 :: SoPrimitiveVertex where
  "corner1 = SoPrimitiveVertex (Fin 1, Fin 0, Fin 0)"

definition corner2 :: SoPrimitiveVertex where
  "corner2 = SoPrimitiveVertex (Fin 0, Fin 1, Fin 0)"

definition in_meters :: "unit SoCallbackAction" where
  "in_meters = \<lparr>getModelMatrix = (), getUnits = METERS\<rparr>"

definition in_millimeters :: "unit SoCallbackAction" where
  "in_millimeters = \<lparr>getModelMatrix = (), getUnits = MILLIMETERS\<rparr>"

definition scenario_triangle :: "unit triangle" where
  "scenario_triangle = (in_meters, corner0, corner1, corner2)"

text \<open>A mesh of 1431655765 triangles: 4294967295 vertices, one less than \<open>2 ^ 32\<close>.\<close>

definition mesh_below_2_32 :: MeshOut where
  "mesh_below_2_32 =
     apply_callbacks identity_multVecMatrix float_product MeshOut_init
       (replicate 1431655765 scenario_triangle)"

definition two_triangles :: MeshOut where
  "two_triangles =
     apply_callbacks identity_multVecMatrix float_product MeshOut_init
       [scenario_triangle, (in_meters, corner0, corner2, corner1)]"

text \<open>One more triangle of the scenario, alone, and one whose first corner has a NaN as its x.\<close>

definition nan_corner :: SoPrimitiveVertex where
  "nan_corner = SoPrimitiveVertex (NaN, Fin 0, Fin 0)"

definition nan_mesh :: MeshOut where
  "nan_mesh = apply_callbacks identity_multVecMatrix float_product MeshOut_init
                [(in_meters, nan_corner, corner1, corner2)]"

definition one_triangle :: MeshOut where
  "one_triangle = apply_callbacks identity_multVecMatrix float_product MeshOut_init
                    [scenario_triangle]"

text \<open>
  A platform and a world for the examples: the index bytes in little-endian order,
  the binary32 bytes of the floats the examples store (0, 1, the infinities; a NaN
  for the rest), a serializer that accepts every document and one that refuses
  every document, an input file that opens and holds the scenario's triangle.
\<close>

definition little_endian :: "32 word \<Rightarrow> bytes4" where
  "little_endian w = (ucast w, ucast (drop_bit 8 w), ucast (drop_bit 16 w), ucast (drop_bit 24 w))"

definition sample_float_bytes :: "fp \<Rightarrow> bytes4" where
  "sample_float_bytes c =
     (case c of
        Fin a \<Rightarrow> if a = 0 then (0, 0, 0, 0) else if a = 1 then (0, 0, 0x80, 0x3F)
                 else (0, 0, 0xC0, 0x7F)
      | PosInf \<Rightarrow> (0, 0, 0x80, 0x7F)
      | NegInf \<Rightarrow> (0, 0, 0x80, 0xFF)
      | NaN \<Rightarrow> (0, 0, 0xC0, 0x7F))"

definition accepting_writer :: "Model \<Rightarrow> string \<Rightarrow> bool \<Rightarrow> bool \<Rightarrow> bool \<Rightarrow> bool \<Rightarrow> bool" where
  "accepting_writer model outPath embedImages embedBuffers prettyPrint writeBinary = True"

definition failing_writer :: "Model \<Rightarrow> string \<Rightarrow> bool \<Rightarrow> bool \<Rightarrow> bool \<Rightarrow> bool \<Rightarrow> bool" where
  "failing_writer model outPath embedImages embedBuffers prettyPrint writeBinary = False"

definition good_env :: "(unit, unit) Env" where
  "good_env =
     \<lparr>SoInput_openFile = (\<lambda>path. True),
      SoDB_readAll = (\<lambda>path. Some ()),
      callbacks = (\<lambda>scene. [scenario_triangle]),
      SbMatrix_multVecMatrix = identity_multVecMatrix,
      float_of_product = float_product,
      float_bytes = sample_float_bytes,
      uint32_bytes = little_endian,
      TinyGLTF_WriteGltfSceneToFile = accepting_writer\<rparr>"

definition three_args :: "string list" where
  "three_args = [''iv2glb'', ''in.iv'', ''out.glb'']"

definition four_args :: "string list" where
  "four_args = [''iv2glb'', ''in.iv'', ''out.glb'', ''extra'']"

section \<open>Rounding, step by step\<close>

lemma binade_search_eq:
  "emin \<le> e \<Longrightarrow> e \<le> emin + int n \<Longrightarrow> 2 powi e \<le> a \<Longrightarrow> a < 2 powi (e + 1) \<Longrightarrow>
   binade_search emin n a = e"
proof (induction n)
  case 0
  then show ?case by simp
next
  case (Suc n)
  show ?case
  proof (cases "e = emin + int (Suc n)")
    case True
    with Suc.prems show ?thesis by simp
  next
    case False
    with Suc.prems have le: "e \<le> emin + int n" by simp
    then have "e + 1 \<le> emin + int (Suc n)" by simp
    then have "(2 :: real) powi (e + 1) \<le> 2 powi (emin + int (Suc n))"
      by (rule power_int_increasing) simp
    with Suc.prems(4) have "\<not> 2 powi (emin + int (Suc n)) \<le> a" by simp
    then show ?thesis
      using Suc.IH [OF Suc.prems(1) le Suc.prems(3,4)] by simp
  qed
qed

lemma binade_search_top:
  "2 powi (emin + int n) \<le> a \<Longrightarrow> binade_search emin n a = emin + int n"
  by (cases n) simp_all

lemma binade_eq:
  "emin \<le> e \<Longrightarrow> e \<le> emax \<Longrightarrow> 2 powi e \<le> a \<Longrightarrow> a < 2 powi (e + 1) \<Longrightarrow>
   binade emin emax a = e"
  unfolding binade_def by (rule binade_search_eq) simp_all

lemma binade_top:
  "emin \<le> emax \<Longrightarrow> 2 powi emax \<le> a \<Longrightarrow> binade emin emax a = emax"
  unfolding binade_def using binade_search_top [of emin "nat (emax - emin)" a] by simp

lemma round_half_even_eq:
  assumes "\<bar>x - of_int m\<bar> < 1 / 2"
  shows "round_half_even x = m"
proof (cases "of_int m \<le> x")
  case True
  with assms have "\<lfloor>x\<rfloor> = m" by (intro floor_unique) auto
  with assms True show ?thesis by (simp add: round_half_even_def)
next
  case False
  with assms have f: "\<lfloor>x\<rfloor> = m - 1" by (intro floor_unique) auto
  with assms False show ?thesis by (auto simp add: round_half_even_def)
qed

lemma round_half_even_ge:
  assumes "of_int k \<le> x"
  shows "k \<le> round_half_even x"
proof -
  have "k \<le> \<lfloor>x\<rfloor>" using assms by (simp add: le_floor_iff)
  then show ?thesis by (auto simp add: round_half_even_def Let_def)
qed

lemma round_to_format_eq:
  assumes "0 < x" "emin \<le> e" "e \<le> emax" "2 powi e \<le> x" "x < 2 powi (e + 1)"
    and "\<bar>x / 2 powi (e - int p + 1) - of_int m\<bar> < 1 / 2"
    and "of_int m * 2 powi (e - int p + 1) < (2 :: real) powi (emax + 1)"
  shows "round_to_format p emin emax x = Fin (of_int m * 2 powi (e - int p + 1))"
proof -
  have ax: "\<bar>x\<bar> = x"
    using assms(1) by simp
  have b: "binade emin emax x = e"
    using assms(2-5) by (rule binade_eq)
  have r: "round_half_even (x / 2 powi (e - int p + 1)) = m"
    using assms(6) by (rule round_half_even_eq)
  show ?thesis
    using assms(1,7) by (simp add: round_to_format_def Let_def ax b r)
qed

lemma round_to_format_overflow:
  assumes "0 < x" "emin \<le> emax" "2 powi emax \<le> x"
    and "(2 :: real) ^ p \<le> x / 2 powi (emax - int p + 1)"
  shows "round_to_format p emin emax x = PosInf"
proof -
  let ?q = "(2 :: real) powi (emax - int p + 1)"
  let ?m = "round_half_even (x / ?q)"
  have ax: "\<bar>x\<bar> = x"
    using assms(1) by simp
  have b: "binade emin emax x = emax"
    using assms(2,3) by (rule binade_top)
  have "of_int (2 ^ p) \<le> x / ?q"
    using assms(4) by simp
  then have "2 ^ p \<le> ?m"
    by (rule round_half_even_ge)
  then have "(of_int (2 ^ p) :: real) \<le> of_int ?m"
    by (simp only: of_int_le_iff)
  then have "(2 :: real) powi (int p) \<le> of_int ?m"
    by simp
  then have "(2 :: real) powi (int p) * ?q \<le> of_int ?m * ?q"
    by (rule mult_right_mono) simp
  moreover have "(2 :: real) powi (int p) * ?q = 2 powi (emax + 1)"
    using power_int_add [of "2 :: real" "int p" "emax - int p + 1"] by simp
  ultimately have "(2 :: real) powi (emax + 1) \<le> of_int ?m * ?q"
    by (simp only:)
  then show ?thesis
    using assms(1) by (simp add: round_to_format_def Let_def ax b)
qed

lemma to_double_1: "to_double 1 = Fin 1"
  unfolding to_double_def
  using round_to_format_eq [of 1 "- 1022" 0 1023 53 "2 ^ 52"] by simp

lemma to_float_1: "to_float 1 = Fin 1"
  unfolding to_float_def
  using round_to_format_eq [of 1 "- 126" 0 127 24 "2 ^ 23"] by simp

lemma round_zero: "to_double 0 = Fin 0" "to_float 0 = Fin 0"
  by (simp_all add: to_double_def to_float_def round_to_format_def)

text \<open>A product by the scale 1.0 of the meters leaves 0, 1 and a NaN as they are.\<close>

lemma float_product_by_one:
  "float_product (Fin 0) 1 = Fin 0" "float_product (Fin 1) 1 = Fin 1" "float_product NaN 1 = NaN"
  by (simp_all add: float_product_def to_double_1 to_float_1 round_zero)

text \<open>
  One millimeter: the double nearest to 0.001 is \<open>4611686018427388 / 2 ^ 62\<close>, and
  the float nearest to it is \<open>8589935 / 2 ^ 33\<close>, of bits \<open>0x3a83126f\<close>.
\<close>

lemma to_double_millimeter:
  "to_double (1 / 1000) = Fin (1152921504606847 / 1152921504606846976)"
  unfolding to_double_def
  using round_to_format_eq [of "1 / 1000" "- 1022" "- 10" 1023 53 4611686018427388] by simp

lemma to_double_double_millimeter:
  "to_double (1152921504606847 / 1152921504606846976) =
     Fin (1152921504606847 / 1152921504606846976)"
  unfolding to_double_def
  using round_to_format_eq [of "1152921504606847 / 1152921504606846976" "- 1022" "- 10" 1023 53
      4611686018427388]
  by simp

lemma to_float_millimeter:
  "to_float (1152921504606847 / 1152921504606846976) = Fin (8589935 / 8589934592)"
  unfolding to_float_def
  using round_to_format_eq [of "1152921504606847 / 1152921504606846976" "- 126" "- 10" 127 24
      8589935]
  by simp

lemma float_product_millimeter:
  "float_product (Fin 1) (1 / 1000) = Fin (8589935 / 8589934592)"
  by (simp add: float_product_def to_double_millimeter to_double_double_millimeter
      to_float_millimeter)

lemma float_product_zero_millimeter: "float_product (Fin 0) (1 / 1000) = Fin 0"
  by (simp add: float_product_def to_double_millimeter round_zero)

text \<open>
  A product that leaves the range of \<open>float\<close>: the float nearest to \<open>1e38\<close>, in
  kilometers.
\<close>

lemma to_double_1000: "to_double 1000 = Fin 1000"
  unfolding to_double_def
  using round_to_format_eq [of 1000 "- 1022" 9 1023 53 "1000 * 2 ^ 43"] by simp

lemma to_double_1e41:
  "to_double 99999996802856924650656260769173209088000 =
     Fin 99999996802856924650656260769173209088000"
  unfolding to_double_def
  using round_to_format_eq [of 99999996802856924650656260769173209088000 "- 1022" 136 1023 53
      "99999996802856924650656260769173209088000 div 2 ^ 84"]
  by simp

lemma to_float_1e41: "to_float 99999996802856924650656260769173209088000 = PosInf"
  unfolding to_float_def
  using round_to_format_overflow [of 99999996802856924650656260769173209088000 "- 126" 127 24]
  by simp

lemma float_product_overflow:
  "float_product (Fin 99999996802856924650656260769173209088) 1000 = PosInf"
  by (simp add: float_product_def to_double_1000 to_double_1e41 to_float_1e41)

text \<open>The product is there: of two numbers, \<open>float_product\<close> rounds the product.\<close>

lemma float_product_Fin:
  "to_double s = Fin d \<Longrightarrow> float_product (Fin x) s = float_of_double (to_double (x * d))"
  by (simp add: float_product_def)

section \<open>The accumulator, step by step\<close>

lemma pushVertex_fst:
  "fst (pushVertex mv sc model s v out) = of_nat (length (positions out) div 3)"
  by (simp add: pushVertex_def Let_def)

lemma updateMinMax_positions: "positions (updateMinMax m x y z) = positions m"
  by (simp add: updateMinMax_def split: prod.splits)

lemma updateMinMax_indices: "indices (updateMinMax m x y z) = indices m"
  by (simp add: updateMinMax_def split: prod.splits)

lemma pushVertex_positions:
  "positions (snd (pushVertex mv sc (getModelMatrix a) (unitsScaleToMeters (getUnits a)) v out)) =
     positions out @ flat (scaledPoint mv sc a v)"
  by (simp add: pushVertex_def Let_def updateMinMax_positions flat_def scaledPoint_def)

lemma pushVertex_indices:
  "indices (snd (pushVertex mv sc model s v out)) = indices out"
  by (simp add: pushVertex_def Let_def updateMinMax_indices)

lemma pushVertex_result:
  assumes "pushVertex mv sc (getModelMatrix a) (unitsScaleToMeters (getUnits a)) v out = (i, out')"
  shows "i = of_nat (vertexCount out)"
    and "positions out' = positions out @ flat (scaledPoint mv sc a v)"
    and "indices out' = indices out"
    and "vertexCount out' = vertexCount out + 1"
proof -
  show "i = of_nat (vertexCount out)"
    using assms pushVertex_fst [of mv sc "getModelMatrix a" "unitsScaleToMeters (getUnits a)" v out]
    by (simp add: vertexCount_def)
  show p: "positions out' = positions out @ flat (scaledPoint mv sc a v)"
    using assms pushVertex_positions [of mv sc a v out] by simp
  show "indices out' = indices out"
    using assms pushVertex_indices [of mv sc "getModelMatrix a" "unitsScaleToMeters (getUnits a)" v out]
    by simp
  show "vertexCount out' = vertexCount out + 1"
    by (simp add: vertexCount_def p flat_def)
qed

lemma triangleCB_positions:
  "positions (triangleCB mv sc out a v1 v2 v3) =
     positions out @ flat (scaledPoint mv sc a v1) @ flat (scaledPoint mv sc a v2)
       @ flat (scaledPoint mv sc a v3)"
proof -
  obtain i1 o1 where p1: "pushVertex mv sc (getModelMatrix a) (unitsScaleToMeters (getUnits a)) v1 out = (i1, o1)"
    by (cases "pushVertex mv sc (getModelMatrix a) (unitsScaleToMeters (getUnits a)) v1 out")
  obtain i2 o2 where p2: "pushVertex mv sc (getModelMatrix a) (unitsScaleToMeters (getUnits a)) v2 o1 = (i2, o2)"
    by (cases "pushVertex mv sc (getModelMatrix a) (unitsScaleToMeters (getUnits a)) v2 o1")
  obtain i3 o3 where p3: "pushVertex mv sc (getModelMatrix a) (unitsScaleToMeters (getUnits a)) v3 o2 = (i3, o3)"
    by (cases "pushVertex mv sc (getModelMatrix a) (unitsScaleToMeters (getUnits a)) v3 o2")
  show ?thesis
    by (simp add: triangleCB_def Let_def p1 p2 p3
        pushVertex_result(2) [OF p1] pushVertex_result(2) [OF p2] pushVertex_result(2) [OF p3])
qed

lemma triangleCB_indices:
  "indices (triangleCB mv sc out a v1 v2 v3) =
     indices out @ [of_nat (vertexCount out), of_nat (vertexCount out + 1),
                    of_nat (vertexCount out + 2)]"
proof -
  obtain i1 o1 where p1: "pushVertex mv sc (getModelMatrix a) (unitsScaleToMeters (getUnits a)) v1 out = (i1, o1)"
    by (cases "pushVertex mv sc (getModelMatrix a) (unitsScaleToMeters (getUnits a)) v1 out")
  obtain i2 o2 where p2: "pushVertex mv sc (getModelMatrix a) (unitsScaleToMeters (getUnits a)) v2 o1 = (i2, o2)"
    by (cases "pushVertex mv sc (getModelMatrix a) (unitsScaleToMeters (getUnits a)) v2 o1")
  obtain i3 o3 where p3: "pushVertex mv sc (getModelMatrix a) (unitsScaleToMeters (getUnits a)) v3 o2 = (i3, o3)"
    by (cases "pushVertex mv sc (getModelMatrix a) (unitsScaleToMeters (getUnits a)) v3 o2")
  show ?thesis
    by (simp add: triangleCB_def Let_def p1 p2 p3
        pushVertex_result(1) [OF p1] pushVertex_result(1) [OF p2] pushVertex_result(1) [OF p3]
        pushVertex_result(3) [OF p1] pushVertex_result(3) [OF p2] pushVertex_result(3) [OF p3]
        pushVertex_result(4) [OF p1] pushVertex_result(4) [OF p2])
qed

lemma triangleCB_vertexCount:
  "vertexCount (triangleCB mv sc out a v1 v2 v3) = vertexCount out + 3"
  by (simp add: vertexCount_def triangleCB_positions flat_def)

lemma triangleCB_aligned:
  "length (positions (triangleCB mv sc out a v1 v2 v3)) mod 3 = length (positions out) mod 3"
proof -
  have "length (positions (triangleCB mv sc out a v1 v2 v3)) = length (positions out) + 3 * 3"
    by (simp add: triangleCB_positions flat_def)
  then show ?thesis by (simp only: mod_mult_self2)
qed

lemma triples_append:
  "length xs mod 3 = 0 \<Longrightarrow> triples (xs @ ys) = triples xs @ triples ys"
  by (induction xs rule: triples.induct) simp_all

lemma triples_flat: "triples (flat p @ r) = p # triples r"
  by (simp add: flat_def)

lemma triangleCB_vertices:
  "length (positions out) mod 3 = 0 \<Longrightarrow>
   vertices (triangleCB mv sc out a v1 v2 v3) =
     vertices out @ [scaledPoint mv sc a v1, scaledPoint mv sc a v2, scaledPoint mv sc a v3]"
  by (simp add: vertices_def triangleCB_positions triples_append triples_flat)
     (simp add: flat_def)

lemma apply_callbacks_length_positions:
  "length (positions (apply_callbacks mv sc out ts)) = length (positions out) + 9 * length ts"
proof (induction ts arbitrary: out)
  case Nil
  show ?case by simp
next
  case (Cons t ts)
  obtain a v1 v2 v3 where t: "t = (a, v1, v2, v3)" by (cases t)
  show ?case
    by (simp add: t Cons.IH triangleCB_positions flat_def)
qed

lemma upt_three:
  "[n ..< n + 3 * Suc k] = n # (n + 1) # (n + 2) # [n + 3 ..< n + 3 + 3 * k]"
proof -
  have e: "n + 3 * Suc k = n + 3 + 3 * k" by simp
  have "[n ..< n + 3 + 3 * k] = n # [Suc n ..< n + 3 + 3 * k]"
    by (rule upt_conv_Cons) simp
  also have "[Suc n ..< n + 3 + 3 * k] = Suc n # [Suc (Suc n) ..< n + 3 + 3 * k]"
    by (rule upt_conv_Cons) simp
  also have "[Suc (Suc n) ..< n + 3 + 3 * k] = Suc (Suc n) # [Suc (Suc (Suc n)) ..< n + 3 + 3 * k]"
    by (rule upt_conv_Cons) simp
  also have "Suc (Suc (Suc n)) = n + 3" by simp
  finally show ?thesis unfolding e by simp
qed

lemma apply_callbacks_indices:
  "indices (apply_callbacks mv sc out ts) =
     indices out @ map of_nat [vertexCount out ..< vertexCount out + 3 * length ts]"
proof (induction ts arbitrary: out)
  case Nil
  show ?case by simp
next
  case (Cons t ts)
  obtain a v1 v2 v3 where t: "t = (a, v1, v2, v3)" by (cases t)
  have e: "[vertexCount out ..< vertexCount out + 3 * length (t # ts)] =
      vertexCount out # (vertexCount out + 1) # (vertexCount out + 2) #
      [vertexCount out + 3 ..< vertexCount out + 3 + 3 * length ts]"
    by (simp only: length_Cons upt_three)
  show ?case
    by (subst e) (simp add: t Cons.IH triangleCB_indices triangleCB_vertexCount)
qed

lemma apply_callbacks_vertexCount:
  "vertexCount (apply_callbacks mv sc out ts) = vertexCount out + 3 * length ts"
proof (induction ts arbitrary: out)
  case Nil
  show ?case by simp
next
  case (Cons t ts)
  obtain a v1 v2 v3 where t: "t = (a, v1, v2, v3)" by (cases t)
  show ?case by (simp add: t Cons.IH triangleCB_vertexCount)
qed

lemma apply_callbacks_aligned:
  "length (positions (apply_callbacks mv sc out ts)) mod 3 = length (positions out) mod 3"
proof -
  have "length (positions out) + 9 * length ts = length (positions out) + 3 * length ts * 3"
    by simp
  then show ?thesis
    unfolding apply_callbacks_length_positions by (simp only: mod_mult_self1)
qed

lemma unat_of_nat_le: "unat (of_nat n :: 32 word) \<le> n"
  by (simp add: unat_of_nat)

lemma init_simps:
  "positions MeshOut_init = []" "indices MeshOut_init = []"
  "posMin MeshOut_init = (PosInf, PosInf, PosInf)" "posMax MeshOut_init = (NegInf, NegInf, NegInf)"
  "vertexCount MeshOut_init = 0" "vertices MeshOut_init = []"
  by (simp_all add: MeshOut_init_def vertexCount_def vertices_def)


lemma length_triples: "length (triples xs) = length xs div 3"
  by (induction xs rule: triples.induct) simp_all

lemma valid_indices:
  "i \<in> set (indices (apply_callbacks mv sc MeshOut_init ts)) \<Longrightarrow>
   unat i < vertexCount (apply_callbacks mv sc MeshOut_init ts)"
proof -
  assume i: "i \<in> set (indices (apply_callbacks mv sc MeshOut_init ts))"
  have "unat (of_nat k :: 32 word) < 3 * length ts" if "k < 3 * length ts" for k
    using that unat_of_nat_le [of k] by simp
  with i show ?thesis
    by (auto simp add: apply_callbacks_indices apply_callbacks_vertexCount init_simps)
qed

lemma unat_of_nat_32: "n < 2 ^ 32 \<Longrightarrow> unat (of_nat n :: 32 word) = n"
  by (simp add: unat_of_nat)

lemma map_unat_of_nat_upt:
  "b \<le> 2 ^ 32 \<Longrightarrow> map unat (map of_nat [a ..< b] :: 32 word list) = [a ..< b]"
proof (rule nth_equalityI)
  show "length (map unat (map of_nat [a ..< b] :: 32 word list)) = length [a ..< b]"
    by simp
next
  fix i
  assume b: "b \<le> 2 ^ 32" and "i < length (map unat (map of_nat [a ..< b] :: 32 word list))"
  then have ai: "a + i < 2 ^ 32" and i: "i < b - a" by simp_all
  have "unat (of_nat (a + i) :: 32 word) = a + i" using ai by (rule unat_of_nat_32)
  with i show "map unat (map of_nat [a ..< b] :: 32 word list) ! i = [a ..< b] ! i"
    by (simp del: of_nat_add)
qed

lemma scaledPoint_scenario:
  "scaledPoint identity_multVecMatrix float_product in_millimeters corner0 = (Fin 0, Fin 0, Fin 0)"
  "scaledPoint identity_multVecMatrix float_product in_millimeters corner1 =
     (Fin (8589935 / 8589934592), Fin 0, Fin 0)"
  "scaledPoint identity_multVecMatrix float_product in_millimeters corner2 =
     (Fin 0, Fin (8589935 / 8589934592), Fin 0)"
  "scaledPoint identity_multVecMatrix float_product in_meters corner0 = (Fin 0, Fin 0, Fin 0)"
  "scaledPoint identity_multVecMatrix float_product in_meters corner1 = (Fin 1, Fin 0, Fin 0)"
  "scaledPoint identity_multVecMatrix float_product in_meters corner2 = (Fin 0, Fin 1, Fin 0)"
  by (simp_all add: scaledPoint_def identity_multVecMatrix_def in_millimeters_def
      in_meters_def corner0_def corner1_def corner2_def float_product_by_one
      float_product_millimeter float_product_zero_millimeter)

lemma mesh_below_vertexCount: "vertexCount mesh_below_2_32 = 4294967295"
  by (simp add: mesh_below_2_32_def apply_callbacks_vertexCount init_simps)

lemma two_triangles_indices: "indices two_triangles = [0, 1, 2, 3, 4, 5]"
  by (simp add: two_triangles_def scenario_triangle_def triangleCB_indices
      triangleCB_vertexCount init_simps)

lemma two_triangles_vertexCount: "vertexCount two_triangles = 6"
  by (simp add: two_triangles_def apply_callbacks_vertexCount init_simps)

lemma indices_from_init:
  "indices (apply_callbacks mv sc MeshOut_init ts) = map of_nat [0 ..< 3 * length ts]"
  by (simp add: apply_callbacks_indices init_simps)

lemma indices_wrap:
  assumes "2 ^ 32 < 3 * length ts"
  shows "map unat (indices (apply_callbacks mv sc MeshOut_init ts)) ! (2 ^ 32) = 0"
    and "[0 ..< 3 * length ts] ! (2 ^ 32) = 2 ^ 32"
proof -
  have "map unat (map of_nat [0 ..< 3 * length ts] :: 32 word list) ! (2 ^ 32)
      = unat (of_nat (2 ^ 32) :: 32 word)"
    using assms by (simp only: nth_map length_map length_upt diff_zero nth_upt add_0)
  also have "\<dots> = 0" by simp
  finally show "map unat (indices (apply_callbacks mv sc MeshOut_init ts)) ! (2 ^ 32) = 0"
    by (simp only: indices_from_init)
  show "[0 ..< 3 * length ts] ! (2 ^ 32) = 2 ^ 32"
    using assms by (simp only: nth_upt add_0)
qed

text \<open>
  What \<open>triangleCB\<close> does on any mesh: the three points, transformed and scaled,
  are appended in the order v1, v2, v3, each under the vertex count just before
  its append cast to 32 bits, and the three indices are appended in the same
  order. While the count stays below \<open>2 ^ 32\<close> the indices are the counts.
\<close>

lemma triangleCB_appends_in_order:
  "positions (triangleCB mv sc out a v1 v2 v3) =
     positions out @ flat (scaledPoint mv sc a v1) @ flat (scaledPoint mv sc a v2)
       @ flat (scaledPoint mv sc a v3) \<and>
   indices (triangleCB mv sc out a v1 v2 v3) =
     indices out @ [of_nat (vertexCount out), of_nat (vertexCount out + 1),
                    of_nat (vertexCount out + 2)] \<and>
   (length (positions out) mod 3 = 0 \<longrightarrow>
      length (vertices out) = vertexCount out \<and>
      vertices (triangleCB mv sc out a v1 v2 v3) =
        vertices out @ [scaledPoint mv sc a v1, scaledPoint mv sc a v2, scaledPoint mv sc a v3]) \<and>
   (vertexCount out + 2 < 2 ^ 32 \<longrightarrow>
      map unat (drop (length (indices out)) (indices (triangleCB mv sc out a v1 v2 v3))) =
        [vertexCount out, vertexCount out + 1, vertexCount out + 2])"
proof -
  have "length (vertices out) = vertexCount out"
    by (simp add: vertices_def vertexCount_def length_triples)
  moreover have "map unat [of_nat (vertexCount out), of_nat (vertexCount out + 1),
        of_nat (vertexCount out + 2) :: 32 word] =
      [vertexCount out, vertexCount out + 1, vertexCount out + 2]"
    if "vertexCount out + 2 < 2 ^ 32"
    using that unat_of_nat_32 [of "vertexCount out"] unat_of_nat_32 [of "vertexCount out + 1"]
      unat_of_nat_32 [of "vertexCount out + 2"] by simp
  ultimately show ?thesis
    by (simp add: triangleCB_positions triangleCB_indices triangleCB_vertices)
qed

text \<open>
  The scenario's triangle in millimeters, on the empty accumulator: the stored
  coordinates are the floats nearest to the products, and the indices 0, 1, 2.
\<close>

lemma triangleCB_in_millimeters:
  "vertices (triangleCB identity_multVecMatrix float_product MeshOut_init in_millimeters
       corner0 corner1 corner2) =
     [(Fin 0, Fin 0, Fin 0), (Fin (8589935 / 8589934592), Fin 0, Fin 0),
      (Fin 0, Fin (8589935 / 8589934592), Fin 0)] \<and>
   map unat (indices (triangleCB identity_multVecMatrix float_product MeshOut_init in_millimeters
       corner0 corner1 corner2)) = [0, 1, 2]"
  using triangleCB_appends_in_order [of identity_multVecMatrix float_product MeshOut_init
      in_millimeters corner0 corner1 corner2]
  by (simp add: init_simps scaledPoint_scenario)

section \<open>The bounding box, step by step\<close>

lemma fp_less_le_trans: "fp_less x mn \<Longrightarrow> fp_le mn c \<Longrightarrow> fp_le x c"
  by (cases x; cases mn; cases c) (auto simp add: fp_le_def)

lemma fp_le_less_trans: "fp_le c mx \<Longrightarrow> fp_less mx x \<Longrightarrow> fp_le c x"
  by (cases x; cases mx; cases c) (auto simp add: fp_le_def)

lemma fp_not_less_le: "\<not> fp_less x mn \<Longrightarrow> x \<noteq> NaN \<Longrightarrow> mn \<noteq> NaN \<Longrightarrow> fp_le mn x"
  by (cases x; cases mn) (auto simp add: fp_le_def)

lemma fp_le_refl: "x \<noteq> NaN \<Longrightarrow> fp_le x x"
  by (simp add: fp_le_def)

lemma fp_less_PosInf: "x \<noteq> NaN \<Longrightarrow> x \<noteq> PosInf \<Longrightarrow> fp_less x PosInf"
  by (cases x) simp_all

lemma fp_less_NegInf: "x \<noteq> NaN \<Longrightarrow> x \<noteq> NegInf \<Longrightarrow> fp_less NegInf x"
  by (cases x) simp_all

lemma fp_less_NaN [simp]: "\<not> fp_less x NaN" "\<not> fp_less NaN x"
  by (cases x; simp)+

lemma tight_bounds_init: "tight_bounds PosInf NegInf []"
  by (simp add: tight_bounds_def)

lemma tight_bounds_NaN:
  "tight_bounds mn mx cs \<Longrightarrow> tight_bounds mn mx (cs @ [NaN])"
  by (auto simp add: tight_bounds_def)

lemma tight_bounds_first:
  assumes "tight_bounds mn mx cs" "\<forall>c \<in> set cs. c = NaN" "x \<noteq> NaN"
  shows "tight_bounds (if fp_less x mn then x else mn) (if fp_greater x mx then x else mx) (cs @ [x])"
proof -
  have mn: "mn = PosInf" and mx: "mx = NegInf"
    using assms(1,2) by (simp_all add: tight_bounds_def)
  have a: "(if fp_less x mn then x else mn) = x"
    using fp_less_PosInf [of x] assms(3) by (auto simp add: mn)
  have b: "(if fp_greater x mx then x else mx) = x"
    using fp_less_NegInf [of x] assms(3) by (auto simp add: mx fp_greater_def)
  show ?thesis
    unfolding a b using assms(2,3) by (auto simp add: tight_bounds_def fp_le_refl)
qed

lemma tight_bounds_next:
  assumes t: "tight_bounds mn mx cs" and e: "\<exists>c \<in> set cs. c \<noteq> NaN" and x: "x \<noteq> NaN"
  shows "tight_bounds (if fp_less x mn then x else mn) (if fp_greater x mx then x else mx) (cs @ [x])"
proof -
  from t e have mem: "mn \<in> set cs" "mx \<in> set cs"
    by (simp_all add: tight_bounds_def)
  from t have le: "\<And>c. c \<in> set cs \<Longrightarrow> c \<noteq> NaN \<Longrightarrow> fp_le mn c \<and> fp_le c mx"
    by (simp add: tight_bounds_def)
  from e le have nn: "mn \<noteq> NaN" "mx \<noteq> NaN"
    by (auto simp add: fp_le_def)
  have lo: "fp_le (if fp_less x mn then x else mn) c" if "c \<in> set cs" "c \<noteq> NaN" for c
    using le [OF that] fp_less_le_trans [of x mn c] by simp
  have hi: "fp_le c (if fp_greater x mx then x else mx)" if "c \<in> set cs" "c \<noteq> NaN" for c
    using le [OF that] fp_le_less_trans [of c mx x] by (simp add: fp_greater_def)
  have lox: "fp_le (if fp_less x mn then x else mn) x"
    using fp_not_less_le [of x mn] x nn by (simp add: fp_le_refl)
  have hix: "fp_le x (if fp_greater x mx then x else mx)"
    using fp_not_less_le [of mx x] x nn by (simp add: fp_le_refl fp_greater_def)
  show ?thesis
    unfolding tight_bounds_def using lo hi lox hix mem x by auto
qed

lemma tight_bounds_step:
  assumes "tight_bounds mn mx cs"
  shows "tight_bounds (if fp_less x mn then x else mn) (if fp_greater x mx then x else mx) (cs @ [x])"
proof (cases "x = NaN")
  case True
  then show ?thesis using tight_bounds_NaN [OF assms] by (simp add: fp_greater_def)
next
  case False
  then show ?thesis
    using tight_bounds_first [OF assms _ False] tight_bounds_next [OF assms _ False] by blast
qed

lemma pushVertex_posMin:
  "posMin (snd (pushVertex mv sc (getModelMatrix a) (unitsScaleToMeters (getUnits a)) v out)) =
     (let p = scaledPoint mv sc a v in
      (if fp_less (fst p) (fst (posMin out)) then fst p else fst (posMin out),
       if fp_less (fst (snd p)) (fst (snd (posMin out))) then fst (snd p) else fst (snd (posMin out)),
       if fp_less (snd (snd p)) (snd (snd (posMin out))) then snd (snd p) else snd (snd (posMin out))))"
  by (simp add: pushVertex_def Let_def updateMinMax_def scaledPoint_def split: prod.splits)

lemma pushVertex_posMax:
  "posMax (snd (pushVertex mv sc (getModelMatrix a) (unitsScaleToMeters (getUnits a)) v out)) =
     (let p = scaledPoint mv sc a v in
      (if fp_greater (fst p) (fst (posMax out)) then fst p else fst (posMax out),
       if fp_greater (fst (snd p)) (fst (snd (posMax out))) then fst (snd p) else fst (snd (posMax out)),
       if fp_greater (snd (snd p)) (snd (snd (posMax out))) then snd (snd p) else snd (snd (posMax out))))"
  by (simp add: pushVertex_def Let_def updateMinMax_def scaledPoint_def split: prod.splits)

lemma pushVertex_vertices:
  "length (positions out) mod 3 = 0 \<Longrightarrow>
   vertices (snd (pushVertex mv sc (getModelMatrix a) (unitsScaleToMeters (getUnits a)) v out)) =
     vertices out @ [scaledPoint mv sc a v]"
  by (simp add: vertices_def pushVertex_positions triples_append) (simp add: flat_def)

lemma pushVertex_bounds_inv:
  assumes "bounds_inv out"
  shows "bounds_inv (snd (pushVertex mv sc (getModelMatrix (a :: 'mat SoCallbackAction))
           (unitsScaleToMeters (getUnits a)) v out))"
proof -
  have al: "length (positions out) mod 3 = 0"
    using assms by (simp add: bounds_inv_def)
  have "length (positions (snd (pushVertex mv sc (getModelMatrix a)
      (unitsScaleToMeters (getUnits a)) v out))) = length (positions out) + 3"
    by (simp add: pushVertex_positions flat_def)
  then have "length (positions (snd (pushVertex mv sc (getModelMatrix a)
      (unitsScaleToMeters (getUnits a)) v out))) mod 3 = 0"
    using al by (simp only: mod_add_self2)
  then show ?thesis
    using assms unfolding bounds_inv_def
    by (simp add: pushVertex_vertices [OF al] pushVertex_posMin pushVertex_posMax Let_def
        tight_bounds_step)
qed


lemma indices_update_bounds_inv:
  "bounds_inv m \<Longrightarrow> bounds_inv (m\<lparr>indices := xs\<rparr>)"
  by (simp add: bounds_inv_def vertices_def)

lemma triangleCB_bounds_inv:
  assumes "bounds_inv out"
  shows "bounds_inv (triangleCB mv sc out a v1 v2 v3)"
proof -
  obtain i1 o1 where p1: "pushVertex mv sc (getModelMatrix a) (unitsScaleToMeters (getUnits a)) v1 out = (i1, o1)"
    by (cases "pushVertex mv sc (getModelMatrix a) (unitsScaleToMeters (getUnits a)) v1 out")
  obtain i2 o2 where p2: "pushVertex mv sc (getModelMatrix a) (unitsScaleToMeters (getUnits a)) v2 o1 = (i2, o2)"
    by (cases "pushVertex mv sc (getModelMatrix a) (unitsScaleToMeters (getUnits a)) v2 o1")
  obtain i3 o3 where p3: "pushVertex mv sc (getModelMatrix a) (unitsScaleToMeters (getUnits a)) v3 o2 = (i3, o3)"
    by (cases "pushVertex mv sc (getModelMatrix a) (unitsScaleToMeters (getUnits a)) v3 o2")
  have "bounds_inv o1"
    using pushVertex_bounds_inv [OF assms, of mv sc a v1] by (simp add: p1)
  then have "bounds_inv o2"
    using pushVertex_bounds_inv [of o1 mv sc a v2] by (simp add: p2)
  then have "bounds_inv o3"
    using pushVertex_bounds_inv [of o2 mv sc a v3] by (simp add: p3)
  then show ?thesis
    by (simp add: triangleCB_def Let_def p1 p2 p3 indices_update_bounds_inv)
qed

lemma apply_callbacks_bounds_inv:
  "bounds_inv out \<Longrightarrow> bounds_inv (apply_callbacks mv sc out ts)"
proof (induction ts arbitrary: out)
  case Nil
  then show ?case by simp
next
  case (Cons t ts)
  obtain a v1 v2 v3 where t: "t = (a, v1, v2, v3)" by (cases t)
  show ?case
    by (simp add: t Cons.IH triangleCB_bounds_inv [OF Cons.prems])
qed

lemma bounds_inv_init: "bounds_inv MeshOut_init"
  by (simp add: bounds_inv_def init_simps tight_bounds_init)

lemma bounds_inv_component:
  assumes "bounds_inv m" "i < 3"
  shows "tight_bounds (component i (posMin m)) (component i (posMax m))
           (map (component i) (vertices m))"
proof -
  have "i = 0 \<or> i = 1 \<or> i = 2" using assms(2) by arith
  moreover have "component 0 = fst" "component 1 = (\<lambda>p. fst (snd p))"
      "component 2 = (\<lambda>p. snd (snd p))"
    by (simp_all add: component_def fun_eq_iff)
  ultimately show ?thesis
    using assms(1) by (auto simp add: bounds_inv_def)
qed

lemma one_triangle_eval:
  "vertices one_triangle = [(Fin 0, Fin 0, Fin 0), (Fin 1, Fin 0, Fin 0), (Fin 0, Fin 1, Fin 0)]"
  "posMin one_triangle = (Fin 0, Fin 0, Fin 0)"
  "posMax one_triangle = (Fin 1, Fin 1, Fin 0)"
  by (simp_all add: one_triangle_def scenario_triangle_def triangleCB_def pushVertex_def
      updateMinMax_def Let_def vertices_def MeshOut_init_def identity_multVecMatrix_def
      float_product_by_one in_meters_def corner0_def corner1_def corner2_def fp_greater_def)

lemma nan_mesh_eval:
  "vertices nan_mesh = [(NaN, Fin 0, Fin 0), (Fin 1, Fin 0, Fin 0), (Fin 0, Fin 1, Fin 0)]"
  "posMin nan_mesh = (Fin 0, Fin 0, Fin 0)"
  "posMax nan_mesh = (Fin 1, Fin 1, Fin 0)"
  by (simp_all add: nan_mesh_def triangleCB_def pushVertex_def
      updateMinMax_def Let_def vertices_def MeshOut_init_def identity_multVecMatrix_def
      float_product_by_one in_meters_def nan_corner_def corner1_def corner2_def fp_greater_def)

section \<open>The packer and the command line, step by step\<close>

lemma length_object_bytes: "length (object_bytes repr xs) = 4 * length xs"
proof (induction xs)
  case Nil
  show ?case by (simp add: object_bytes_def)
next
  case (Cons x xs)
  obtain a b c d where "repr x = (a, b, c, d)" by (cases "repr x")
  with Cons show ?case by (simp add: object_bytes_def)
qed

lemma document_buffers:
  "buffers (gltf_document fr ur m) =
     [\<lparr>data = object_bytes fr (positions m) @ object_bytes ur (indices m)\<rparr>]"
  by (simp add: gltf_document_def Let_def memcpy_def sizeof_float_def sizeof_uint32_t_def
      length_object_bytes mult.commute)

lemma document_bufferViews:
  "bufferViews (gltf_document fr ur m) =
     [\<lparr>buffer = 0, byteOffset = 0, byteLength = 4 * length (positions m),
       target = TINYGLTF_TARGET_ARRAY_BUFFER\<rparr>,
      \<lparr>buffer = 0, byteOffset = 4 * length (positions m), byteLength = 4 * length (indices m),
       target = TINYGLTF_TARGET_ELEMENT_ARRAY_BUFFER\<rparr>]"
  by (simp add: gltf_document_def Let_def sizeof_float_def sizeof_uint32_t_def mult.commute)

lemma document_accessors:
  "accessors (gltf_document fr ur m) =
     [\<lparr>bufferView = 0, acc_byteOffset = 0, componentType = TINYGLTF_COMPONENT_TYPE_FLOAT,
       count = vertexCount m, type = TINYGLTF_TYPE_VEC3,
       minValues = [component 0 (posMin m), component 1 (posMin m), component 2 (posMin m)],
       maxValues = [component 0 (posMax m), component 1 (posMax m), component 2 (posMax m)]\<rparr>,
      \<lparr>bufferView = 1, acc_byteOffset = 0,
       componentType = TINYGLTF_COMPONENT_TYPE_UNSIGNED_INT,
       count = length (indices m), type = TINYGLTF_TYPE_SCALAR,
       minValues = [], maxValues = []\<rparr>]"
  by (simp add: gltf_document_def Let_def vertexCount_def component_def)

lemma writeGLB_nonempty:
  assumes "positions m \<noteq> []" "indices m \<noteq> []"
  shows "serialized (writeGLB w fr ur m outPath e0) = Some (gltf_document fr ur m, outPath)"
    and "returned (writeGLB w fr ur m outPath e0) =
           w (gltf_document fr ur m) outPath True True False True"
  using assms by (simp_all add: writeGLB_def Let_def)

lemma writeGLB_empty:
  assumes "positions m = [] \<or> indices m = []"
  shows "writeGLB w fr ur m outPath e0 =
           \<lparr>returned = False, err = ''No triangles extracted from scene graph.'',
            serialized = None\<rparr>"
  using assms by (auto simp add: writeGLB_def)

lemma aligned_bytes: "length (positions m) mod 3 = 0 \<Longrightarrow> 4 * length (positions m) = 3 * 4 * vertexCount m"
  unfolding vertexCount_def by presburger

lemma one_triangle_buffers:
  "positions one_triangle = [Fin 0, Fin 0, Fin 0, Fin 1, Fin 0, Fin 0, Fin 0, Fin 1, Fin 0]"
  "indices one_triangle = [0, 1, 2]"
  "vertexCount one_triangle = 3"
  by (simp_all add: one_triangle_def scenario_triangle_def triangleCB_positions
      triangleCB_indices vertexCount_def init_simps scaledPoint_scenario flat_def)

lemma one_triangle_bytes:
  "object_bytes sample_float_bytes (positions one_triangle) =
     [0, 0, 0, 0,  0, 0, 0, 0,  0, 0, 0, 0,
      0, 0, 0x80, 0x3F,  0, 0, 0, 0,  0, 0, 0, 0,
      0, 0, 0, 0,  0, 0, 0x80, 0x3F,  0, 0, 0, 0]"
  "object_bytes little_endian (indices one_triangle) = [0, 0, 0, 0,  1, 0, 0, 0,  2, 0, 0, 0]"
  by (simp_all add: one_triangle_buffers object_bytes_def sample_float_bytes_def
      little_endian_def drop_bit_eq_div)

lemma main_status:
  "status (main env argv) =
     (if length argv < 3 then 2
      else if \<not> SoInput_openFile env (argv ! 1) then 3
      else case SoDB_readAll env (argv ! 1) of
             None \<Rightarrow> 4
           | Some scene_root \<Rightarrow>
               if returned (export_glb env (traversal_mesh env scene_root) (argv ! 2)) then 0
               else 5)"
  by (simp add: main_def Let_def export_glb_def traversal_mesh_def split: option.splits)

lemma main_stdout:
  "3 \<le> length argv \<Longrightarrow> SoInput_openFile env (argv ! 1) \<Longrightarrow>
   SoDB_readAll env (argv ! 1) = Some scene_root \<Longrightarrow>
   returned (export_glb env (traversal_mesh env scene_root) (argv ! 2)) \<Longrightarrow>
   stdout (main env argv) =
     ''OK: wrote '' @ argv ! 2 @ '' ('' @
     show_nat (length (indices (traversal_mesh env scene_root)) div 3) @ '' triangles)\<newline>''"
  by (simp add: main_def Let_def export_glb_def traversal_mesh_def)

lemma good_env_reads:
  "SoInput_openFile good_env p" "SoDB_readAll good_env p = Some ()"
  by (simp_all add: good_env_def)

lemma good_env_mesh: "traversal_mesh good_env () = one_triangle"
  by (simp add: traversal_mesh_def good_env_def one_triangle_def)

lemma good_env_export: "returned (export_glb good_env one_triangle p)"
  by (simp add: export_glb_def writeGLB_def Let_def good_env_def one_triangle_buffers
      accepting_writer_def)

lemma show_nat_1: "show_nat 1 = ''1''" "show_nat (Suc 0) = ''1''"
  by (simp_all add: show_nat.simps)

lemma accumulated_mesh_wellformed:
  assumes "ts \<noteq> []"
  shows "positions (apply_callbacks mv sc MeshOut_init ts) \<noteq> []"
    and "indices (apply_callbacks mv sc MeshOut_init ts) \<noteq> []"
    and "length (positions (apply_callbacks mv sc MeshOut_init ts)) mod 3 = 0"
proof -
  have "length (positions (apply_callbacks mv sc MeshOut_init ts)) = 9 * length ts"
    by (simp add: apply_callbacks_length_positions init_simps)
  then show "positions (apply_callbacks mv sc MeshOut_init ts) \<noteq> []"
    using assms by auto
  show "indices (apply_callbacks mv sc MeshOut_init ts) \<noteq> []"
    using assms by (simp add: indices_from_init)
  show "length (positions (apply_callbacks mv sc MeshOut_init ts)) mod 3 = 0"
    by (simp add: apply_callbacks_aligned init_simps)
qed

section \<open>Properties\<close>

text \<open>
  C9. The unit-to-meter scale is 0.001 for millimeters, 0.01 for centimeters, 1.0 for
  meters, 1000.0 for kilometers, 0.0254 for inches, 0.3048 for feet, 0.9144 for yards,
  1609.344 for miles, and 1.0 for every other unit.
\<close>

theorem unitsScaleToMeters_table:
  "unitsScaleToMeters MILLIMETERS = 1 / 1000 \<and>
   unitsScaleToMeters CENTIMETERS = 1 / 100 \<and>
   unitsScaleToMeters METERS = 1 \<and>
   unitsScaleToMeters KILOMETERS = 1000 \<and>
   unitsScaleToMeters INCHES = 254 / 10000 \<and>
   unitsScaleToMeters FEET = 3048 / 10000 \<and>
   unitsScaleToMeters YARDS = 9144 / 10000 \<and>
   unitsScaleToMeters MILES = 1609344 / 1000 \<and>
   unitsScaleToMeters (OTHER_UNITS k) = 1 \<and>
   (u \<notin> {MILLIMETERS, CENTIMETERS, KILOMETERS, INCHES, FEET, YARDS, MILES}
      \<longrightarrow> unitsScaleToMeters u = 1)"
  by (cases u) simp_all

theorem unitsScaleToMeters_table_witness:
  "OTHER_UNITS 5 \<notin> {MILLIMETERS, CENTIMETERS, KILOMETERS, INCHES, FEET, YARDS, MILES} \<and>
   unitsScaleToMeters (OTHER_UNITS 5) = 1 \<and>
   unitsScaleToMeters INCHES = 254 / 10000 \<and>
   unitsScaleToMeters MILES = 1609344 / 1000"
  using unitsScaleToMeters_table [of 5 "OTHER_UNITS 5"] by simp


text \<open>
  C1. The index recorded for a vertex is to be the vertex count just before its
  append, and line 28 of the source has the indices \<open>0..N-1\<close>. The cast of line 85
  is unchecked, and the code does not do so from \<open>2 ^ 32\<close> vertices on. After
  1431655765 triangles the buffer holds 4294967295 vertices; the next triangle
  appends its vertices at the counts 4294967295, 4294967296 and 4294967297, and
  the indices it records are 4294967295, 0 and 1.
\<close>

theorem index_is_not_vertex_count:
  "vertexCount mesh_below_2_32 = 4294967295 \<and>
   map unat (drop (length (indices mesh_below_2_32))
     (indices (triangleCB identity_multVecMatrix float_product mesh_below_2_32 in_meters
        corner0 corner1 corner2))) = [4294967295, 0, 1]"
  by (simp add: triangleCB_indices mesh_below_vertexCount)

text \<open>
  C3. After any sequence of triangles, every value of the index buffer is below the
  vertex count, and the length of the index buffer is a multiple of 3.
\<close>

theorem index_validity:
  "(\<forall>i \<in> set (indices (apply_callbacks mv sc MeshOut_init ts)).
      unat i < vertexCount (apply_callbacks mv sc MeshOut_init ts)) \<and>
   length (indices (apply_callbacks mv sc MeshOut_init ts)) mod 3 = 0"
  by (simp add: valid_indices apply_callbacks_indices init_simps)

theorem index_validity_witness:
  "5 \<in> set (indices two_triangles) \<and> unat (5 :: 32 word) < vertexCount two_triangles \<and>
   vertexCount two_triangles = 6 \<and> length (indices two_triangles) mod 3 = 0"
proof -
  have m: "5 \<in> set (indices two_triangles)"
    by (simp add: two_triangles_indices)
  have "(\<forall>i \<in> set (indices two_triangles). unat i < vertexCount two_triangles) \<and>
      length (indices two_triangles) mod 3 = 0"
    unfolding two_triangles_def
    by (rule index_validity)
  with m show ?thesis
    by (simp add: two_triangles_vertexCount)
qed

text \<open>
  C8. Every triangle adds exactly three vertices, whatever its geometry: after a
  sequence of triangles the vertex buffer has three entries per triangle, and two
  triangles with the same first corner leave that corner twice in the buffer, as
  entries 0 and 3.
\<close>

theorem no_welding:
  "vertexCount (triangleCB mv sc out a v1 v2 v3) = vertexCount out + 3 \<and>
   vertexCount (apply_callbacks mv sc MeshOut_init ts) = 3 * length ts \<and>
   length (vertices (apply_callbacks mv sc MeshOut_init ts)) = 3 * length ts \<and>
   vertices (apply_callbacks mv sc MeshOut_init [(a, c, v2, v3), (a, c, w2, w3)]) =
     [scaledPoint mv sc a c, scaledPoint mv sc a v2, scaledPoint mv sc a v3,
      scaledPoint mv sc a c, scaledPoint mv sc a w2, scaledPoint mv sc a w3]"
proof -
  have al: "length (positions (triangleCB mv sc MeshOut_init a c v2 v3)) mod 3 = 0"
    by (simp add: triangleCB_aligned init_simps)
  have "length (vertices (apply_callbacks mv sc MeshOut_init ts)) = 3 * length ts"
    by (simp add: vertices_def length_triples apply_callbacks_length_positions init_simps)
  then show ?thesis
    by (simp add: triangleCB_vertexCount apply_callbacks_vertexCount init_simps
        triangleCB_vertices [OF al] triangleCB_vertices)
qed

text \<open>
  C10. Each index \<open>triangleCB\<close> stores is the count of the vertices stored before,
  modulo \<open>2 ^ 32\<close>, the cast to \<open>uint32_t\<close> of a \<open>size_t\<close>. After \<open>T\<close> triangles,
  while the vertex count is below \<open>2 ^ 32\<close>, the index buffer is exactly
  \<open>0, 1, ..., 3T - 1\<close> and every index is below the vertex count; and the index
  buffer is that sequence only while the vertex count is below \<open>2 ^ 32\<close>.
\<close>

theorem indices_mod_2_32:
  "indices (triangleCB mv sc out a v1 v2 v3) =
     indices out @ [of_nat (vertexCount out), of_nat (vertexCount out + 1),
                    of_nat (vertexCount out + 2)] \<and>
   unat (of_nat n :: 32 word) = n mod 2 ^ 32 \<and>
   indices (apply_callbacks mv sc MeshOut_init ts) = map of_nat [0 ..< 3 * length ts] \<and>
   (vertexCount (apply_callbacks mv sc MeshOut_init ts) < 2 ^ 32 \<longrightarrow>
      map unat (indices (apply_callbacks mv sc MeshOut_init ts)) = [0 ..< 3 * length ts] \<and>
      (\<forall>i \<in> set (indices (apply_callbacks mv sc MeshOut_init ts)).
         unat i < vertexCount (apply_callbacks mv sc MeshOut_init ts))) \<and>
   (map unat (indices (apply_callbacks mv sc MeshOut_init ts)) = [0 ..< 3 * length ts] \<longrightarrow>
      vertexCount (apply_callbacks mv sc MeshOut_init ts) < 2 ^ 32)"
proof -
  have n: "vertexCount (apply_callbacks mv sc MeshOut_init ts) = 3 * length ts"
    by (simp add: apply_callbacks_vertexCount init_simps)
  have 1: "indices (triangleCB mv sc out a v1 v2 v3) =
     indices out @ [of_nat (vertexCount out), of_nat (vertexCount out + 1),
                    of_nat (vertexCount out + 2)]"
    by (rule triangleCB_indices)
  have 2: "unat (of_nat n :: 32 word) = n mod 2 ^ 32"
    by (simp add: unat_of_nat)
  have 5: "indices (apply_callbacks mv sc MeshOut_init ts) = map of_nat [0 ..< 3 * length ts]"
    by (rule indices_from_init)
  have 3: "vertexCount (apply_callbacks mv sc MeshOut_init ts) < 2 ^ 32 \<longrightarrow>
      map unat (indices (apply_callbacks mv sc MeshOut_init ts)) = [0 ..< 3 * length ts] \<and>
      (\<forall>i \<in> set (indices (apply_callbacks mv sc MeshOut_init ts)).
         unat i < vertexCount (apply_callbacks mv sc MeshOut_init ts))"
  proof (intro impI conjI ballI)
    assume "vertexCount (apply_callbacks mv sc MeshOut_init ts) < 2 ^ 32"
    then have "3 * length ts \<le> 2 ^ 32"
      unfolding n by simp
    then show "map unat (indices (apply_callbacks mv sc MeshOut_init ts)) = [0 ..< 3 * length ts]"
      unfolding indices_from_init by (rule map_unat_of_nat_upt)
  next
    fix i
    assume "i \<in> set (indices (apply_callbacks mv sc MeshOut_init ts))"
    then show "unat i < vertexCount (apply_callbacks mv sc MeshOut_init ts)"
      by (rule valid_indices)
  qed
  have 4: "map unat (indices (apply_callbacks mv sc MeshOut_init ts)) = [0 ..< 3 * length ts] \<longrightarrow>
      vertexCount (apply_callbacks mv sc MeshOut_init ts) < 2 ^ 32"
  proof (intro impI, rule ccontr)
    assume exact: "map unat (indices (apply_callbacks mv sc MeshOut_init ts)) = [0 ..< 3 * length ts]"
      and "\<not> vertexCount (apply_callbacks mv sc MeshOut_init ts) < 2 ^ 32"
    then have "4294967296 \<le> 3 * length ts"
      unfolding n by simp
    then have "(4294967296 :: nat) < 3 * length ts"
      by presburger
    then have big: "2 ^ 32 < 3 * length ts"
      by simp
    have "(0 :: nat) = 2 ^ 32"
      using exact indices_wrap(1) [OF big, of mv sc] indices_wrap(2) [OF big] by simp
    then show False by simp
  qed
  show ?thesis
    by (intro conjI) (rule 1, rule 2, rule 5, rule 3, rule 4)
qed

theorem indices_mod_2_32_witness:
  "vertexCount two_triangles < 2 ^ 32 \<and>
   map unat (indices two_triangles) = [0, 1, 2, 3, 4, 5] \<and>
   5 \<in> set (indices two_triangles) \<and> unat (5 :: 32 word) < vertexCount two_triangles"
proof -
  have m: "5 \<in> set (indices two_triangles)"
    by (simp add: two_triangles_indices)
  have small: "vertexCount two_triangles < 2 ^ 32"
    by (simp add: two_triangles_vertexCount)
  note t = indices_mod_2_32 [of identity_multVecMatrix float_product MeshOut_init in_meters
      corner0 corner1 corner2 0 "[scenario_triangle, (in_meters, corner0, corner2, corner1)]",
      folded two_triangles_def]
  have a: "unat (5 :: 32 word) < vertexCount two_triangles"
    using t small m by blast
  have "map unat (indices two_triangles) =
      [0 ..< 3 * length [scenario_triangle, (in_meters, corner0, corner2, corner1)]]"
    using t small by blast
  then have b: "map unat (indices two_triangles) = [0, 1, 2, 3, 4, 5]"
    by (simp add: upt_rec)
  show ?thesis
    by (intro conjI) (rule small, rule b, rule m, rule a)
qed

text \<open>
  C2, as the code has it. After any sequence of triangles, in each coordinate: every
  stored vertex whose coordinate is a number lies within \<open>[min, max]\<close>; if some
  stored vertex has a number there, the minimum and the maximum are each the
  coordinate of a stored vertex; and if none has, they are still plus and minus
  infinity.
\<close>

theorem bounding_box_invariant:
  assumes "i < 3" and "m = apply_callbacks mv sc MeshOut_init ts"
  shows "(\<forall>v \<in> set (vertices m). component i v \<noteq> NaN \<longrightarrow>
            fp_le (component i (posMin m)) (component i v) \<and>
            fp_le (component i v) (component i (posMax m))) \<and>
         ((\<exists>v \<in> set (vertices m). component i v \<noteq> NaN) \<longrightarrow>
            (\<exists>v \<in> set (vertices m). component i v = component i (posMin m)) \<and>
            (\<exists>v \<in> set (vertices m). component i v = component i (posMax m))) \<and>
         ((\<forall>v \<in> set (vertices m). component i v = NaN) \<longrightarrow>
            component i (posMin m) = PosInf \<and> component i (posMax m) = NegInf)"
proof -
  have "bounds_inv m"
    unfolding assms(2) using bounds_inv_init by (rule apply_callbacks_bounds_inv)
  then have "tight_bounds (component i (posMin m)) (component i (posMax m))
      (map (component i) (vertices m))"
    using assms(1) by (rule bounds_inv_component)
  then show ?thesis
    unfolding tight_bounds_def by (simp add: image_iff) metis
qed

theorem bounding_box_invariant_witness:
  "(1 :: nat) < 3 \<and>
   (Fin 0, Fin 1, Fin 0) \<in> set (vertices one_triangle) \<and>
   component 1 (Fin 0, Fin 1, Fin 0) \<noteq> NaN \<and>
   fp_le (component 1 (posMin one_triangle)) (component 1 (Fin 0, Fin 1, Fin 0)) \<and>
   fp_le (component 1 (Fin 0, Fin 1, Fin 0)) (component 1 (posMax one_triangle)) \<and>
   component 1 (Fin 1, Fin 0, Fin 0) = component 1 (posMin one_triangle) \<and>
   component 1 (Fin 0, Fin 1, Fin 0) = component 1 (posMax one_triangle) \<and>
   posMin one_triangle = (Fin 0, Fin 0, Fin 0) \<and> posMax one_triangle = (Fin 1, Fin 1, Fin 0)"
proof -
  have i: "(1 :: nat) < 3" by simp
  have v: "(Fin 0, Fin 1, Fin 0) \<in> set (vertices one_triangle)"
    by (simp add: one_triangle_eval)
  have n: "component 1 (Fin 0, Fin 1, Fin 0) \<noteq> NaN"
    by (simp add: component_def)
  have "fp_le (component 1 (posMin one_triangle)) (component 1 (Fin 0, Fin 1, Fin 0)) \<and>
      fp_le (component 1 (Fin 0, Fin 1, Fin 0)) (component 1 (posMax one_triangle))"
    using bounding_box_invariant [OF i one_triangle_def] v n by blast
  then show ?thesis
    using v by (simp add: one_triangle_eval component_def)
qed

text \<open>
  C2 as stated fails on a vertex with a NaN coordinate: \<open>updateMinMax\<close> compares
  with \<open><\<close> and \<open>></\<close>, both false on a NaN, so the vertex is stored and the box
  does not contain it.
\<close>

theorem nan_vertex_outside_bounds:
  "vertices nan_mesh ! 0 = (NaN, Fin 0, Fin 0) \<and>
   posMin nan_mesh = (Fin 0, Fin 0, Fin 0) \<and> posMax nan_mesh = (Fin 1, Fin 1, Fin 0) \<and>
   \<not> fp_le (component 0 (posMin nan_mesh)) (component 0 (vertices nan_mesh ! 0)) \<and>
   \<not> fp_le (component 0 (vertices nan_mesh ! 0)) (component 0 (posMax nan_mesh))"
  by (simp add: nan_mesh_eval component_def fp_le_def)

text \<open>
  C6. On a mesh of whole vertices that is not empty, the document handed to the
  serializer has one buffer, the bytes of the positions followed at once by the
  bytes of the indices, of lengths \<open>3 * 4 * vertexCount\<close> and \<open>4 * indexCount\<close>, and
  two buffer views: the vertex-attribute view at offset 0 over the position bytes,
  the element-index view at offset \<open>posBytes\<close> over the index bytes.
\<close>

theorem packed_layout:
  assumes "positions m \<noteq> []" and "indices m \<noteq> []" and "length (positions m) mod 3 = 0"
  shows "serialized (writeGLB w fr ur m outPath e0) = Some (gltf_document fr ur m, outPath) \<and>
         length (object_bytes fr (positions m)) = 3 * 4 * vertexCount m \<and>
         length (object_bytes ur (indices m)) = 4 * length (indices m) \<and>
         buffers (gltf_document fr ur m) =
           [\<lparr>data = object_bytes fr (positions m) @ object_bytes ur (indices m)\<rparr>] \<and>
         bufferViews (gltf_document fr ur m) =
           [\<lparr>buffer = 0, byteOffset = 0, byteLength = 3 * 4 * vertexCount m,
             target = TINYGLTF_TARGET_ARRAY_BUFFER\<rparr>,
            \<lparr>buffer = 0, byteOffset = 3 * 4 * vertexCount m,
             byteLength = 4 * length (indices m),
             target = TINYGLTF_TARGET_ELEMENT_ARRAY_BUFFER\<rparr>]"
  using assms(3)
  by (simp only: writeGLB_nonempty(1) [OF assms(1,2)] length_object_bytes document_buffers
      document_bufferViews aligned_bytes [symmetric] simp_thms)

theorem packed_layout_witness:
  "positions one_triangle \<noteq> [] \<and> indices one_triangle \<noteq> [] \<and>
   length (positions one_triangle) mod 3 = 0 \<and>
   serialized (writeGLB accepting_writer sample_float_bytes little_endian one_triangle
       ''out.glb'' []) =
     Some (gltf_document sample_float_bytes little_endian one_triangle, ''out.glb'') \<and>
   buffers (gltf_document sample_float_bytes little_endian one_triangle) =
     [\<lparr>data =
        [0, 0, 0, 0,  0, 0, 0, 0,  0, 0, 0, 0,
         0, 0, 0x80, 0x3F,  0, 0, 0, 0,  0, 0, 0, 0,
         0, 0, 0, 0,  0, 0, 0x80, 0x3F,  0, 0, 0, 0,
         0, 0, 0, 0,  1, 0, 0, 0,  2, 0, 0, 0]\<rparr>] \<and>
   bufferViews (gltf_document sample_float_bytes little_endian one_triangle) =
     [\<lparr>buffer = 0, byteOffset = 0, byteLength = 36, target = TINYGLTF_TARGET_ARRAY_BUFFER\<rparr>,
      \<lparr>buffer = 0, byteOffset = 36, byteLength = 12,
       target = TINYGLTF_TARGET_ELEMENT_ARRAY_BUFFER\<rparr>]"
proof -
  have h: "positions one_triangle \<noteq> []" "indices one_triangle \<noteq> []"
      "length (positions one_triangle) mod 3 = 0"
    by (simp_all add: one_triangle_buffers)
  show ?thesis
    using h packed_layout [OF h, of accepting_writer sample_float_bytes little_endian
        "''out.glb''" "[]"]
    by (simp add: one_triangle_bytes one_triangle_buffers(3))
qed

text \<open>
  C5. In the document handed to the serializer, the position accessor is a
  \<open>VEC3\<close> of \<open>FLOAT\<close> over the position view, with count \<open>vertexCount\<close> and with
  the minimum and maximum of the accumulated bounding box; the index accessor is a
  \<open>SCALAR\<close> of \<open>UNSIGNED_INT\<close> over the index view, with count \<open>indexCount\<close>.
\<close>

theorem accessors_declared:
  assumes "positions m \<noteq> []" and "indices m \<noteq> []"
  shows "serialized (writeGLB w fr ur m outPath e0) = Some (gltf_document fr ur m, outPath) \<and>
         accessors (gltf_document fr ur m) =
           [\<lparr>bufferView = 0, acc_byteOffset = 0,
             componentType = TINYGLTF_COMPONENT_TYPE_FLOAT,
             count = vertexCount m, type = TINYGLTF_TYPE_VEC3,
             minValues = [component 0 (posMin m), component 1 (posMin m), component 2 (posMin m)],
             maxValues = [component 0 (posMax m), component 1 (posMax m), component 2 (posMax m)]\<rparr>,
            \<lparr>bufferView = 1, acc_byteOffset = 0,
             componentType = TINYGLTF_COMPONENT_TYPE_UNSIGNED_INT,
             count = length (indices m), type = TINYGLTF_TYPE_SCALAR,
             minValues = [], maxValues = []\<rparr>]"
  by (simp only: writeGLB_nonempty(1) [OF assms] document_accessors simp_thms)

theorem accessors_declared_witness:
  "positions one_triangle \<noteq> [] \<and> indices one_triangle \<noteq> [] \<and>
   accessors (gltf_document sample_float_bytes little_endian one_triangle) =
     [\<lparr>bufferView = 0, acc_byteOffset = 0, componentType = TINYGLTF_COMPONENT_TYPE_FLOAT,
       count = 3, type = TINYGLTF_TYPE_VEC3,
       minValues = [Fin 0, Fin 0, Fin 0], maxValues = [Fin 1, Fin 1, Fin 0]\<rparr>,
      \<lparr>bufferView = 1, acc_byteOffset = 0,
       componentType = TINYGLTF_COMPONENT_TYPE_UNSIGNED_INT,
       count = 3, type = TINYGLTF_TYPE_SCALAR, minValues = [], maxValues = []\<rparr>]"
proof -
  have h: "positions one_triangle \<noteq> []" "indices one_triangle \<noteq> []"
    by (simp_all add: one_triangle_buffers)
  show ?thesis
    using h accessors_declared [OF h, of accepting_writer sample_float_bytes little_endian
        "''out.glb''" "[]"]
    by (simp add: one_triangle_buffers one_triangle_eval component_def)
qed

text \<open>
  C4, as the code has it. \<open>writeGLB\<close> fails exactly when a buffer is empty or the
  serializer refuses the document. On an empty buffer the result is one fixed
  failure, whatever the serializer, the path and the encodings, and the serializer
  is not called, so no file is written. The emptiness check is the only validation:
  every other mesh is made into a document and handed to the serializer, whose
  verdict is the result.
\<close>

theorem writeGLB_failure:
  "(\<not> returned (writeGLB w fr ur m outPath e0) \<longleftrightarrow>
      positions m = [] \<or> indices m = [] \<or>
      \<not> w (gltf_document fr ur m) outPath True True False True) \<and>
   (serialized (writeGLB w fr ur m outPath e0) = None \<longleftrightarrow>
      positions m = [] \<or> indices m = []) \<and>
   (positions m = [] \<or> indices m = [] \<longrightarrow>
      writeGLB w fr ur m outPath e0 =
        \<lparr>returned = False, err = ''No triangles extracted from scene graph.'',
         serialized = None\<rparr>) \<and>
   (positions m \<noteq> [] \<and> indices m \<noteq> [] \<longrightarrow>
      serialized (writeGLB w fr ur m outPath e0) = Some (gltf_document fr ur m, outPath) \<and>
      returned (writeGLB w fr ur m outPath e0) =
        w (gltf_document fr ur m) outPath True True False True)"
  by (auto simp add: writeGLB_def Let_def)


theorem writeGLB_failure_witness:
  "(positions MeshOut_init = [] \<or> indices MeshOut_init = []) \<and>
   writeGLB accepting_writer sample_float_bytes little_endian MeshOut_init ''out.glb'' [] =
     \<lparr>returned = False, err = ''No triangles extracted from scene graph.'',
      serialized = None\<rparr> \<and>
   positions one_triangle \<noteq> [] \<and> indices one_triangle \<noteq> [] \<and>
   returned (writeGLB accepting_writer sample_float_bytes little_endian one_triangle
     ''out.glb'' []) \<and>
   serialized (writeGLB accepting_writer sample_float_bytes little_endian one_triangle
       ''out.glb'' []) =
     Some (gltf_document sample_float_bytes little_endian one_triangle, ''out.glb'')"
proof -
  have e: "positions MeshOut_init = [] \<or> indices MeshOut_init = []"
    by (simp add: init_simps)
  have h: "positions one_triangle \<noteq> []" "indices one_triangle \<noteq> []"
    by (simp_all add: one_triangle_buffers)
  show ?thesis
    using e h
      writeGLB_failure [of accepting_writer sample_float_bytes little_endian MeshOut_init
        "''out.glb''" "[]"]
      writeGLB_failure [of accepting_writer sample_float_bytes little_endian one_triangle
        "''out.glb''" "[]"]
    by (simp add: accepting_writer_def)
qed

text \<open>
  C4 as stated fails on a mesh of one triangle and a serializer that refuses it:
  neither buffer is empty, and \<open>writeGLB\<close> fails.
\<close>

theorem writeGLB_fails_on_nonempty_input:
  "positions one_triangle \<noteq> [] \<and> indices one_triangle \<noteq> [] \<and>
   \<not> returned (writeGLB failing_writer sample_float_bytes little_endian one_triangle
        ''out.glb'' []) \<and>
   err (writeGLB failing_writer sample_float_bytes little_endian one_triangle ''out.glb'' []) =
     ''tinygltf failed to write GLB.''"
  by (simp add: writeGLB_def Let_def one_triangle_buffers failing_writer_def)

text \<open>
  C7, as the code has it. \<open>main\<close> exits with 2 exactly when fewer than two
  arguments follow the program name; otherwise with 3 when the input does not
  open, with 4 when no scene is read, with 5 when \<open>writeGLB\<close> fails and with 0 when
  it succeeds, printing then the output path and the number of triangles.
\<close>

theorem exit_codes:
  "(status (main env argv) = 2 \<longleftrightarrow> length argv < 3) \<and>
   (status (main env argv) = 3 \<longleftrightarrow> 3 \<le> length argv \<and> \<not> SoInput_openFile env (argv ! 1)) \<and>
   (status (main env argv) = 4 \<longleftrightarrow>
      3 \<le> length argv \<and> SoInput_openFile env (argv ! 1) \<and>
      SoDB_readAll env (argv ! 1) = None) \<and>
   (status (main env argv) = 5 \<longleftrightarrow>
      3 \<le> length argv \<and> SoInput_openFile env (argv ! 1) \<and>
      (\<exists>scene_root. SoDB_readAll env (argv ! 1) = Some scene_root \<and>
         \<not> returned (export_glb env (traversal_mesh env scene_root) (argv ! 2)))) \<and>
   (status (main env argv) = 0 \<longleftrightarrow>
      3 \<le> length argv \<and> SoInput_openFile env (argv ! 1) \<and>
      (\<exists>scene_root. SoDB_readAll env (argv ! 1) = Some scene_root \<and>
         returned (export_glb env (traversal_mesh env scene_root) (argv ! 2)))) \<and>
   (\<forall>scene_root. status (main env argv) = 0 \<and> SoDB_readAll env (argv ! 1) = Some scene_root \<longrightarrow>
      stdout (main env argv) =
        ''OK: wrote '' @ argv ! 2 @ '' ('' @
        show_nat (length (indices (traversal_mesh env scene_root)) div 3) @
        '' triangles)\<newline>'')"
proof -
  have out: "stdout (main env argv) =
        ''OK: wrote '' @ argv ! 2 @ '' ('' @
        show_nat (length (indices (traversal_mesh env scene_root)) div 3) @
        '' triangles)\<newline>''"
    if "status (main env argv) = 0" "SoDB_readAll env (argv ! 1) = Some scene_root"
    for scene_root
  proof -
    from that have "3 \<le> length argv" "SoInput_openFile env (argv ! 1)"
        "returned (export_glb env (traversal_mesh env scene_root) (argv ! 2))"
      by (auto simp add: main_status split: if_splits)
    then show ?thesis using that(2) by (simp add: main_stdout)
  qed
  have codes: "(status (main env argv) = 2 \<longleftrightarrow> length argv < 3) \<and>
   (status (main env argv) = 3 \<longleftrightarrow> 3 \<le> length argv \<and> \<not> SoInput_openFile env (argv ! 1)) \<and>
   (status (main env argv) = 4 \<longleftrightarrow>
      3 \<le> length argv \<and> SoInput_openFile env (argv ! 1) \<and>
      SoDB_readAll env (argv ! 1) = None) \<and>
   (status (main env argv) = 5 \<longleftrightarrow>
      3 \<le> length argv \<and> SoInput_openFile env (argv ! 1) \<and>
      (\<exists>scene_root. SoDB_readAll env (argv ! 1) = Some scene_root \<and>
         \<not> returned (export_glb env (traversal_mesh env scene_root) (argv ! 2)))) \<and>
   (status (main env argv) = 0 \<longleftrightarrow>
      3 \<le> length argv \<and> SoInput_openFile env (argv ! 1) \<and>
      (\<exists>scene_root. SoDB_readAll env (argv ! 1) = Some scene_root \<and>
         returned (export_glb env (traversal_mesh env scene_root) (argv ! 2))))"
    by (cases "SoDB_readAll env (argv ! 1)") (auto simp add: main_status)
  show ?thesis using codes out by blast
qed

theorem exit_codes_witness:
  "\<not> length three_args < 3 \<and> SoInput_openFile good_env (three_args ! 1) \<and>
   SoDB_readAll good_env (three_args ! 1) = Some () \<and>
   status (main good_env three_args) = 0 \<and>
   stdout (main good_env three_args) = ''OK: wrote out.glb (1 triangles)\<newline>'' \<and>
   length [''iv2glb'', ''in.iv''] < 3 \<and> status (main good_env [''iv2glb'', ''in.iv'']) = 2"
proof -
  have a: "\<not> length three_args < 3" "3 \<le> length three_args"
    "SoInput_openFile good_env (three_args ! 1)"
    "SoDB_readAll good_env (three_args ! 1) = Some ()"
    by (simp_all add: good_env_reads) (simp_all add: three_args_def)
  have r: "returned (export_glb good_env (traversal_mesh good_env ()) (three_args ! 2))"
    by (simp add: good_env_mesh good_env_export)
  note t = exit_codes [of good_env three_args]
  have s: "status (main good_env three_args) = 0"
    using t a r by blast
  have "stdout (main good_env three_args) =
      ''OK: wrote '' @ three_args ! 2 @ '' ('' @
        show_nat (length (indices (traversal_mesh good_env ())) div 3) @
        '' triangles)\<newline>''"
    using t s a(4) by blast
  then have o: "stdout (main good_env three_args) = ''OK: wrote out.glb (1 triangles)\<newline>''"
    by (simp add: good_env_mesh one_triangle_buffers three_args_def show_nat_1)
  have b: "length [''iv2glb'', ''in.iv''] < 3" by simp
  have "status (main good_env [''iv2glb'', ''in.iv'']) = 2"
    using exit_codes [of good_env "[''iv2glb'', ''in.iv'']"] b by blast
  with a s o b show ?thesis by blast
qed

text \<open>
  C7 as stated fails on three arguments: the count is wrong, and \<open>main\<close> ignores
  the third and exits with 0.
\<close>

theorem extra_argument_is_accepted:
  "length four_args = 4 \<and> status (main good_env four_args) = 0 \<and>
   stdout (main good_env four_args) = ''OK: wrote out.glb (1 triangles)\<newline>''"
proof -
  have "status (main good_env four_args) = 0"
    by (simp add: main_status good_env_reads good_env_mesh good_env_export four_args_def)
  moreover have "stdout (main good_env four_args) = ''OK: wrote out.glb (1 triangles)\<newline>''"
    using main_stdout [of four_args good_env "()"]
    by (simp add: good_env_reads good_env_mesh good_env_export one_triangle_buffers show_nat_1
        four_args_def)
  ultimately show ?thesis by (simp add: four_args_def)
qed

end
